theory Spec2Isabelle
  imports Main "HOL-Library.Sublist"
begin

section \<open>JavaScript values\<close>

text \<open>
  The repository holds three variants of one Express server: the SMS variant
  (\<^verbatim>\<open>src/server.js\<close>, lines 1 to 200), the nodemailer variant
  (\<^verbatim>\<open>src/server.js\<close>, lines 202 to 416) and the Resend variant
  (\<^verbatim>\<open>src/unnamed/part_000\<close>). Their handlers work on JSON values, so the
  embedding starts with the values of JavaScript and the built-in conversions the
  handlers apply to them.

  A finite number of a request body or of the database is kept as a decimal
  \<open>Dec m e\<close>, standing for \<open>m * 10 ^ e\<close>. For these numbers the rounding of
  IEEE doubles is not part of the model: a literal is kept exactly (no overflow to
  \<open>Infinity\<close>, no underflow to 0), and the sign of zero is dropped. The page
  and the limit of \<^verbatim>\<open>/hotels\<close>, on which the handler computes, are doubles
  with their rounding and their overflow, see \<open>jsint\<close> below. A string is the
  sequence of its UTF-8 bytes, so a lone surrogate, on which
  \<^verbatim>\<open>encodeURIComponent\<close> throws, has no counterpart.
\<close>

datatype jsnum = NaN | PosInf | NegInf | Dec int int

datatype jsval =
    JUndefined
  | JNull
  | JBool bool
  | JNum jsnum
  | JStr string
  | JArr "jsval list"
  | JObj "(string \<times> jsval) list"

text \<open>
  What a handler can catch: the two built-in errors the source can raise, an
  \<open>Error\<close> thrown by the handler itself with its message, and the rejection of
  an awaited call to a collaborator.
\<close>

datatype error = TypeError | ReferenceError | JsError string | Rejected

type_synonym props = "(string \<times> jsval) list"

text \<open>\<open>!v\<close> is \<open>\<not> truthy v\<close>; \<open>a || b\<close> is \<open>js_or a b\<close>.\<close>

fun truthy :: "jsval \<Rightarrow> bool" where
  "truthy JUndefined = False"
| "truthy JNull = False"
| "truthy (JBool b) = b"
| "truthy (JNum NaN) = False"
| "truthy (JNum (Dec m e)) = (m \<noteq> 0)"
| "truthy (JNum PosInf) = True"
| "truthy (JNum NegInf) = True"
| "truthy (JStr s) = (s \<noteq> [])"
| "truthy (JArr xs) = True"
| "truthy (JObj kvs) = True"

definition js_or :: "jsval \<Rightarrow> jsval \<Rightarrow> jsval" where
  "js_or a b = (if truthy a then a else b)"

text \<open>
  A destructured field of a request body. \<^verbatim>\<open>bodyParser.json()\<close> hands the handlers
  an object, here the list of its properties, each name once; an absent property
  reads as \<open>undefined\<close>.
\<close>

definition field :: "props \<Rightarrow> string \<Rightarrow> jsval" where
  "field body k = (case map_of body k of None \<Rightarrow> JUndefined | Some v \<Rightarrow> v)"

text \<open>
  Property access \<open>v.k\<close> on a value of a provider's response, which may be any JSON
  value: it throws on \<open>null\<close> and \<open>undefined\<close>. None of the property names the
  source reads is an index, \<open>length\<close> or a member of a built-in prototype, so
  every other non-object yields \<open>undefined\<close>.
\<close>

definition nullish :: "jsval \<Rightarrow> bool" where
  "nullish v = (v = JUndefined \<or> v = JNull)"

fun js_prop :: "jsval \<Rightarrow> string \<Rightarrow> jsval" where
  "js_prop (JObj kvs) k = field kvs k"
| "js_prop v k = JUndefined"

definition get_prop :: "jsval \<Rightarrow> string \<Rightarrow> error + jsval" where
  "get_prop v k = (if nullish v then Inl TypeError else Inr (js_prop v k))"

subsection \<open>Numbers to strings\<close>

definition digit_char :: "nat \<Rightarrow> char" where
  "digit_char d = ''0123456789'' ! d"

fun dec_digits :: "nat \<Rightarrow> string" where
  "dec_digits n =
     (if n < 10 then [digit_char n] else dec_digits (n div 10) @ [digit_char (n mod 10)])"

declare dec_digits.simps [simp del]

text \<open>Drops the trailing zeros of a non-zero mantissa into the exponent.\<close>

function strip_zeros :: "nat \<Rightarrow> int \<Rightarrow> nat \<times> int" where
  "strip_zeros m e =
     (if m \<noteq> 0 \<and> m mod 10 = 0 then strip_zeros (m div 10) (e + 1) else (m, e))"
  by pat_completeness auto
termination
  by (relation "measure (\<lambda>(m, e). m)") auto

declare strip_zeros.simps [simp del]

text \<open>
  \<open>Number::toString\<close> in radix 10: with \<open>k\<close> digits \<open>ds\<close> and the decimal point
  after the \<open>n\<close>-th digit, plain notation for \<open>-6 < n \<le> 21\<close> and exponent notation
  outside.
\<close>

definition num_to_string :: "jsnum \<Rightarrow> string" where
  "num_to_string x =
     (case x of
        NaN \<Rightarrow> ''NaN''
      | PosInf \<Rightarrow> ''Infinity''
      | NegInf \<Rightarrow> ''-Infinity''
      | Dec m e \<Rightarrow>
          if m = 0 then ''0''
          else
            (let (s, e') = strip_zeros (nat \<bar>m\<bar>) e;
                 ds = dec_digits s;
                 k = int (length ds);
                 n = k + e';
                 ex = n - 1;
                 es = (if ex < 0 then ''-'' else ''+'') @ dec_digits (nat \<bar>ex\<bar>);
                 digits =
                   (if k \<le> n \<and> n \<le> 21 then ds @ replicate (nat (n - k)) (CHR ''0'')
                    else if 0 < n \<and> n \<le> 21 then take (nat n) ds @ ''.'' @ drop (nat n) ds
                    else if - 6 < n \<and> n \<le> 0 then ''0.'' @ replicate (nat (- n)) (CHR ''0'') @ ds
                    else if k = 1 then ds @ ''e'' @ es
                    else take 1 ds @ ''.'' @ drop 1 ds @ ''e'' @ es)
             in (if m < 0 then ''-'' else []) @ digits))"

subsection \<open>Strings to numbers\<close>

text \<open>
  White space, as \<open>parseInt\<close> and \<open>Number\<close> strip it: the code points of
  \<open>WhiteSpace\<close> and \<open>LineTerminator\<close> (tab, line feed, vertical tab, form feed,
  carriage return, space, U+00A0, U+1680, U+2000 to U+200A, U+2028, U+2029,
  U+202F, U+205F, U+3000 and U+FEFF), each in its UTF-8 bytes.
\<close>

definition js_spaces :: "string list" where
  "js_spaces =
     [[CHR 0x09], [CHR 0x0A], [CHR 0x0B], [CHR 0x0C], [CHR 0x0D], [CHR 0x20],
      [CHR 0xC2, CHR 0xA0],
      [CHR 0xE1, CHR 0x9A, CHR 0x80],
      [CHR 0xE2, CHR 0x80, CHR 0x80], [CHR 0xE2, CHR 0x80, CHR 0x81],
      [CHR 0xE2, CHR 0x80, CHR 0x82], [CHR 0xE2, CHR 0x80, CHR 0x83],
      [CHR 0xE2, CHR 0x80, CHR 0x84], [CHR 0xE2, CHR 0x80, CHR 0x85],
      [CHR 0xE2, CHR 0x80, CHR 0x86], [CHR 0xE2, CHR 0x80, CHR 0x87],
      [CHR 0xE2, CHR 0x80, CHR 0x88], [CHR 0xE2, CHR 0x80, CHR 0x89],
      [CHR 0xE2, CHR 0x80, CHR 0x8A],
      [CHR 0xE2, CHR 0x80, CHR 0xA8], [CHR 0xE2, CHR 0x80, CHR 0xA9],
      [CHR 0xE2, CHR 0x80, CHR 0xAF],
      [CHR 0xE2, CHR 0x81, CHR 0x9F],
      [CHR 0xE3, CHR 0x80, CHR 0x80],
      [CHR 0xEF, CHR 0xBB, CHR 0xBF]]"

function trim_start :: "string \<Rightarrow> string" where
  "trim_start s =
     (case find (\<lambda>w. prefix w s) js_spaces of
        None \<Rightarrow> s
      | Some w \<Rightarrow> trim_start (drop (length w) s))"
  by pat_completeness auto
termination
proof (relation "measure length")
  fix s w :: string
  assume "find (\<lambda>w. prefix w s) js_spaces = Some w"
  then have "w \<in> set js_spaces" and "prefix w s"
    by (auto simp: find_Some_iff)
  then have "w \<noteq> []" and "length w \<le> length s"
    by (auto simp: js_spaces_def prefix_length_le)
  then show "(drop (length w) s, s) \<in> measure length"
    by (cases w) auto
qed simp

function trim_end :: "string \<Rightarrow> string" where
  "trim_end s =
     (case find (\<lambda>w. suffix w s) js_spaces of
        None \<Rightarrow> s
      | Some w \<Rightarrow> trim_end (take (length s - length w) s))"
  by pat_completeness auto
termination
proof (relation "measure length")
  fix s w :: string
  assume "find (\<lambda>w. suffix w s) js_spaces = Some w"
  then have "w \<in> set js_spaces" and "suffix w s"
    by (auto simp: find_Some_iff)
  then have "w \<noteq> []" and "length w \<le> length s"
    by (auto simp: js_spaces_def suffix_length_le)
  then show "(take (length s - length w) s, s) \<in> measure length"
    by (cases w) auto
qed simp

declare trim_start.simps [simp del] trim_end.simps [simp del]

definition radix_digit :: "char \<Rightarrow> nat option" where
  "radix_digit c =
     (let n = (of_char c :: nat)
      in if 48 \<le> n \<and> n \<le> 57 then Some (n - 48)
         else if 97 \<le> n \<and> n \<le> 102 then Some (n - 87)
         else if 65 \<le> n \<and> n \<le> 70 then Some (n - 55)
         else None)"

definition is_radix_digit :: "nat \<Rightarrow> char \<Rightarrow> bool" where
  "is_radix_digit r c = (case radix_digit c of None \<Rightarrow> False | Some d \<Rightarrow> d < r)"

definition radix_value :: "nat \<Rightarrow> string \<Rightarrow> nat" where
  "radix_value r s =
     foldl (\<lambda>a c. a * r + (case radix_digit c of None \<Rightarrow> 0 | Some d \<Rightarrow> d)) 0 s"


fun bitlen :: "nat \<Rightarrow> nat" where
  "bitlen n = (if n = 0 then 0 else Suc (bitlen (n div 2)))"

declare bitlen.simps [simp del]




text \<open>The grammar \<open>StringNumericLiteral\<close> behind \<open>Number(s)\<close>.\<close>

definition negate :: "jsnum \<Rightarrow> jsnum" where
  "negate x = (case x of NaN \<Rightarrow> NaN | PosInf \<Rightarrow> NegInf | NegInf \<Rightarrow> PosInf | Dec m e \<Rightarrow> Dec (- m) e)"

definition exponent_part :: "string \<Rightarrow> int option" where
  "exponent_part r =
     (if r = [] then Some 0
      else if hd r = CHR ''e'' \<or> hd r = CHR ''E'' then
        (let t = tl r;
             neg = (t \<noteq> [] \<and> hd t = CHR ''-'');
             ds = (if t \<noteq> [] \<and> (hd t = CHR ''+'' \<or> hd t = CHR ''-'') then tl t else t)
         in if ds \<noteq> [] \<and> list_all (is_radix_digit 10) ds
            then Some ((if neg then - 1 else 1) * int (radix_value 10 ds))
            else None)
      else None)"

definition unsigned_decimal :: "string \<Rightarrow> jsnum" where
  "unsigned_decimal s =
     (if s = ''Infinity'' then PosInf
      else
        (let ip = takeWhile (is_radix_digit 10) s;
             r1 = dropWhile (is_radix_digit 10) s;
             dot = (r1 \<noteq> [] \<and> hd r1 = CHR ''.'');
             fp = (if dot then takeWhile (is_radix_digit 10) (tl r1) else []);
             r2 = (if dot then dropWhile (is_radix_digit 10) (tl r1) else r1)
         in if ip = [] \<and> fp = [] then NaN
            else (case exponent_part r2 of
                    None \<Rightarrow> NaN
                  | Some ex \<Rightarrow> Dec (int (radix_value 10 (ip @ fp))) (ex - int (length fp)))))"

definition nondecimal :: "nat \<Rightarrow> string \<Rightarrow> jsnum" where
  "nondecimal r ds =
     (if ds \<noteq> [] \<and> list_all (is_radix_digit r) ds then Dec (int (radix_value r ds)) 0 else NaN)"

definition string_to_number :: "string \<Rightarrow> jsnum" where
  "string_to_number str =
     (let t = trim_end (trim_start str)
      in if t = [] then Dec 0 0
         else if take 2 t = ''0x'' \<or> take 2 t = ''0X'' then nondecimal 16 (drop 2 t)
         else if take 2 t = ''0o'' \<or> take 2 t = ''0O'' then nondecimal 8 (drop 2 t)
         else if take 2 t = ''0b'' \<or> take 2 t = ''0B'' then nondecimal 2 (drop 2 t)
         else if hd t = CHR ''-'' then negate (unsigned_decimal (tl t))
         else if hd t = CHR ''+'' then unsigned_decimal (tl t)
         else unsigned_decimal t)"

subsection \<open>Conversions of values\<close>

fun join_comma :: "(error + string) list \<Rightarrow> error + string" where
  "join_comma [] = Inr []"
| "join_comma [x] = x"
| "join_comma (x # y # ys) =
     (case x of
        Inl err \<Rightarrow> Inl err
      | Inr s \<Rightarrow> (case join_comma (y # ys) of Inl err \<Rightarrow> Inl err | Inr t \<Rightarrow> Inr (s @ '','' @ t)))"

text \<open>
  \<open>ToString\<close>, as a template literal applies it. An array joins its elements with
  commas, \<open>null\<close> and \<open>undefined\<close> elements as empty strings. An object parsed from
  JSON inherits \<open>Object.prototype.toString\<close> unless it has a property of that name
  of its own, which is no function: then the conversion throws.
\<close>

fun js_to_string :: "jsval \<Rightarrow> error + string" where
  "js_to_string JUndefined = Inr ''undefined''"
| "js_to_string JNull = Inr ''null''"
| "js_to_string (JBool b) = Inr (if b then ''true'' else ''false'')"
| "js_to_string (JNum n) = Inr (num_to_string n)"
| "js_to_string (JStr s) = Inr s"
| "js_to_string (JArr xs) =
     join_comma (map (\<lambda>x. if nullish x then Inr [] else js_to_string x) xs)"
| "js_to_string (JObj kvs) =
     (if map_of kvs ''toString'' = None then Inr ''[object Object]'' else Inl TypeError)"

text \<open>\<open>Number(v)\<close>: arrays and objects go through their string.\<close>

fun Number :: "jsval \<Rightarrow> error + jsnum" where
  "Number JUndefined = Inr NaN"
| "Number JNull = Inr (Dec 0 0)"
| "Number (JBool b) = Inr (Dec (if b then 1 else 0) 0)"
| "Number (JNum n) = Inr n"
| "Number (JStr s) = Inr (string_to_number s)"
| "Number (JArr xs) =
     (case js_to_string (JArr xs) of Inl err \<Rightarrow> Inl err | Inr s \<Rightarrow> Inr (string_to_number s))"
| "Number (JObj kvs) =
     (case js_to_string (JObj kvs) of Inl err \<Rightarrow> Inl err | Inr s \<Rightarrow> Inr (string_to_number s))"

subsection \<open>Arithmetic and array slices\<close>








section \<open>The booking store\<close>

text \<open>
  The table \<^verbatim>\<open>bookings\<close>. A row of the store holds the parameters of its
  \<^verbatim>\<open>INSERT\<close>, as \<^verbatim>\<open>db.run\<close> binds them, and the status later updates give it.
  What SQLite keeps of a bound value (type affinity; \<open>NaN\<close> becomes \<open>NULL\<close>) and
  hands back on a read is the database's own, see \<open>fetched\<close> below. \<open>id\<close> is the
  \<^verbatim>\<open>INTEGER PRIMARY KEY AUTOINCREMENT\<close>: no statement of the source deletes a row,
  so the next key is one more than the largest key of the table.
\<close>

record booking =
  id_col :: nat
  user_id :: jsnum
  hotel_name :: jsval
  checkin :: jsval
  checkout :: jsval
  guests :: jsval
  total_amount :: jsnum
  status :: string

type_synonym store = "booking list"

definition next_id :: "store \<Rightarrow> nat" where
  "next_id rows = Suc (foldr max (map id_col rows) 0)"

text \<open>
  \<^verbatim>\<open>WHERE id = ?\<close> compares the key of a row with a bound JavaScript value, a
  number in a request body or the string of a route parameter. The comparison
  belongs to SQLite, so the handlers take it as a parameter \<open>eqid\<close>.
\<close>

type_synonym key_eq = "jsval \<Rightarrow> nat \<Rightarrow> bool"

text \<open>\<^verbatim>\<open>UPDATE bookings SET status = ? WHERE id = ?\<close>\<close>

definition update_status :: "key_eq \<Rightarrow> string \<Rightarrow> jsval \<Rightarrow> store \<Rightarrow> store" where
  "update_status eqid st bookingId rows =
     map (\<lambda>b. if eqid bookingId (id_col b) then b\<lparr>status := st\<rparr> else b) rows"

text \<open>\<^verbatim>\<open>SELECT * FROM bookings WHERE id = ?\<close>, read with \<^verbatim>\<open>db.get\<close>: the first row.\<close>

definition select_booking :: "key_eq \<Rightarrow> jsval \<Rightarrow> store \<Rightarrow> booking option" where
  "select_booking eqid bookingId rows = find (\<lambda>b. eqid bookingId (id_col b)) rows"

section \<open>Requests, collaborators and effects\<close>

datatype variant = Sms | Mailer | Resend

text \<open>
  A column of the object \<^verbatim>\<open>db.get\<close> returns for a row: \<open>null\<close>, a number or a
  string. The object itself maps the names of the columns to their values.
\<close>

datatype cell = SqlNull | SqlNumber jsnum | SqlText string

type_synonym sqlrow = "string \<Rightarrow> cell"

fun cell_value :: "cell \<Rightarrow> jsval" where
  "cell_value SqlNull = JNull"
| "cell_value (SqlNumber n) = JNum n"
| "cell_value (SqlText s) = JStr s"

text \<open>
  What the collaborators answer during one request: whether the statement sent to
  the database succeeds, the object \<^verbatim>\<open>db.get\<close> returns for a stored row, the
  parsed bodies of the two PayPal responses and the receipt of the mail or SMS
  provider. \<open>None\<close> is a rejected promise. \<open>fetched\<close> is SQLite's reading of the
  row, not the source's, so nothing is assumed of it: a total stored from \<open>NaN\<close>
  comes back as \<open>null\<close>, a number bound to a text column as a string.
\<close>

record env =
  db_ok :: bool
  fetched :: "booking \<Rightarrow> sqlrow"
  auth_res :: "jsval option"
  order_res :: "jsval option"
  delivery_res :: "jsval option"

text \<open>
  The order sent to PayPal. The source formats the amount with \<^verbatim>\<open>toFixed(2)\<close> and
  builds the return URL from the base URL, the booking id and the URI-encoded
  email; the record keeps the parts, not the formatted text.
\<close>

record order =
  bearer :: string
  amount :: jsnum
  description :: jsval
  return_bookingId :: nat
  return_email :: string

datatype message =
    SmsMessage jsval string
  | Email jsval string string

datatype event =
    DbInsert booking
  | DbUpdate string jsval
  | DbSelect jsval
  | PayPalAuth
  | PayPalOrder order
  | Deliver message

datatype response = Response nat jsval

record result =
  reply :: response
  db :: store
  effects :: "event list"

definition error_body :: "string \<Rightarrow> jsval" where
  "error_body msg = JObj [(''error'', JStr msg)]"

definition responded :: "nat \<Rightarrow> jsval \<Rightarrow> store \<Rightarrow> event list \<Rightarrow> result" where
  "responded c payload rows evs = \<lparr>reply = Response c payload, db = rows, effects = evs\<rparr>"

section \<open>GET /hotels\<close>








section \<open>POST /bookings\<close>

text \<open>\<^verbatim>\<open>links.find((l) => l.rel === "approve")\<close>; \<open>undefined\<close> when no link matches.\<close>

fun find_approve :: "jsval list \<Rightarrow> error + jsval" where
  "find_approve [] = Inr JUndefined"
| "find_approve (l # ls) =
     (case get_prop l ''rel'' of
        Inl err \<Rightarrow> Inl err
      | Inr r \<Rightarrow> if r = JStr ''approve'' then Inr l else find_approve ls)"

text \<open>
  \<^verbatim>\<open>orderData.links?.find(...)?.href\<close>: a missing \<open>links\<close> ends the chain with
  \<open>undefined\<close>; a \<open>links\<close> that is no array has no method \<open>find\<close>.
\<close>

definition approve_link :: "jsval \<Rightarrow> error + jsval" where
  "approve_link orderData =
     (case get_prop orderData ''links'' of
        Inl err \<Rightarrow> Inl err
      | Inr links \<Rightarrow>
          if nullish links then Inr JUndefined
          else
            (case links of
               JArr ls \<Rightarrow>
                 (case find_approve ls of
                    Inl err \<Rightarrow> Inl err
                  | Inr l \<Rightarrow> if nullish l then Inr JUndefined else get_prop l ''href'')
             | _ \<Rightarrow> Inl TypeError))"

text \<open>
  The part of the handler that talks to PayPal, from the token request to the
  approve link, with the calls it made. In the nodemailer variant
  \<^verbatim>\<open>RAILWAY_URL\<close> is declared inside the \<^verbatim>\<open>/hotels\<close> handler only, so building
  the order's return URL raises a \<open>ReferenceError\<close> before the order is sent.
\<close>

definition request_payment ::
  "variant \<Rightarrow> env \<Rightarrow> jsval \<Rightarrow> jsnum \<Rightarrow> jsval \<Rightarrow> nat \<Rightarrow> (error + jsval) \<times> event list" where
  "request_payment v ev hotelName amt email bookingId =
     (case auth_res ev of
        None \<Rightarrow> (Inl Rejected, [PayPalAuth])
      | Some authData \<Rightarrow>
          (case get_prop authData ''access_token'' of
             Inl err \<Rightarrow> (Inl err, [PayPalAuth])
           | Inr accessToken \<Rightarrow>
               if \<not> truthy accessToken
               then (Inl (JsError ''Missing PayPal access token''), [PayPalAuth])
               else
                 (case js_to_string accessToken of
                    Inl err \<Rightarrow> (Inl err, [PayPalAuth])
                  | Inr token \<Rightarrow>
                      if v = Mailer then (Inl ReferenceError, [PayPalAuth])
                      else
                        (case js_to_string (js_or email (JStr ''user@example.com'')) of
                           Inl err \<Rightarrow> (Inl err, [PayPalAuth])
                         | Inr mail \<Rightarrow>
                             (let sent =
                                    [PayPalAuth,
                                     PayPalOrder
                                       \<lparr>bearer = token, amount = amt, description = hotelName,
                                        return_bookingId = bookingId, return_email = mail\<rparr>]
                              in case order_res ev of
                                   None \<Rightarrow> (Inl Rejected, sent)
                                 | Some orderData \<Rightarrow>
                                     (case approve_link orderData of
                                        Inl err \<Rightarrow> (Inl err, sent)
                                      | Inr approveLink \<Rightarrow>
                                          if \<not> truthy approveLink
                                          then (Inl (JsError ''Missing PayPal approve link''), sent)
                                          else (Inr approveLink, sent)))))))"

text \<open>The row of the \<^verbatim>\<open>INSERT\<close>, with the key the table gives it.\<close>

definition pending_booking :: "props \<Rightarrow> jsnum \<Rightarrow> store \<Rightarrow> booking" where
  "pending_booking body amt rows =
     \<lparr>id_col = next_id rows,
      user_id = Dec 1 0,
      hotel_name = field body ''hotelName'',
      checkin = js_or (field body ''checkin'') (JStr ''N/A''),
      checkout = js_or (field body ''checkout'') (JStr ''N/A''),
      guests = js_or (field body ''guests'') (JNum (Dec 1 0)),
      total_amount = amt,
      status = ''pending''\<rparr>"

text \<open>
  The handler. Every error raised after the validation is caught by the one
  \<^verbatim>\<open>catch\<close> and answered with 500; what was written before stays written.
\<close>

definition bookings :: "variant \<Rightarrow> env \<Rightarrow> props \<Rightarrow> store \<Rightarrow> result" where
  "bookings v ev body rows =
     (let hotelName = field body ''hotelName'';
          failure = responded 500 (error_body ''Failed to create booking'')
      in if \<not> truthy hotelName \<or> \<not> truthy (field body ''total'')
         then responded 400 (error_body ''Missing required fields'') rows []
         else
           (case Number (field body ''total'') of
              Inl err \<Rightarrow> failure rows []
            | Inr amt \<Rightarrow>
                if \<not> db_ok ev then failure rows []
                else
                  (let row = pending_booking body amt rows;
                       bookingId = id_col row
                   in case request_payment v ev hotelName amt (field body ''email'') bookingId of
                        (Inl err, calls) \<Rightarrow> failure (rows @ [row]) (DbInsert row # calls)
                      | (Inr approveLink, calls) \<Rightarrow>
                          responded 200
                            (JObj [(''bookingId'', JNum (Dec (int bookingId) 0)),
                                   (''approveUrl'', approveLink)])
                            (rows @ [row]) (DbInsert row # calls))))"

section \<open>POST /payments/webhook/paypal\<close>

definition webhook :: "variant \<Rightarrow> key_eq \<Rightarrow> env \<Rightarrow> props \<Rightarrow> store \<Rightarrow> result" where
  "webhook v eqid ev body rows =
     (let bookingId = field body ''bookingId''
      in if \<not> truthy bookingId
         then responded 400 (error_body ''Missing bookingId'') rows []
         else if \<not> db_ok ev
         then responded 500 (error_body ''Failed to confirm booking'') rows []
         else
           responded 200
             (if v = Resend then JObj [(''success'', JBool True)] else JStr ''ok'')
             (update_status eqid ''confirmed'' bookingId rows)
             [DbUpdate ''confirmed'' bookingId])"

section \<open>Notifications\<close>

text \<open>A template literal: fixed text and interpolated values, converted in order.\<close>

datatype piece = Lit string | Sub jsval

fun render :: "piece list \<Rightarrow> error + string" where
  "render [] = Inr []"
| "render (Lit s # ps) =
     (case render ps of Inl err \<Rightarrow> Inl err | Inr t \<Rightarrow> Inr (s @ t))"
| "render (Sub v # ps) =
     (case js_to_string v of
        Inl err \<Rightarrow> Inl err
      | Inr s \<Rightarrow> (case render ps of Inl err \<Rightarrow> Inl err | Inr t \<Rightarrow> Inr (s @ t)))"

text \<open>
  \<^verbatim>\<open>${booking.hotel_name}\<close> and the like, \<open>booking\<close> being the object read from
  the database.
\<close>

definition column :: "sqlrow \<Rightarrow> string \<Rightarrow> piece" where
  "column booking name = Sub (cell_value (booking name))"

text \<open>The SMS text of \<^verbatim>\<open>/notify-sms/:bookingId\<close>.\<close>

definition sms_template :: "sqlrow \<Rightarrow> piece list" where
  "sms_template booking =
     [Lit ''\<newline>Booking confirmed!\<newline>Hotel: '', column booking ''hotel_name'',
      Lit ''\<newline>Check-in: '', column booking ''checkin'',
      Lit ''\<newline>Check-out: '', column booking ''checkout'',
      Lit ''\<newline>Guests: '', column booking ''guests'',
      Lit ''\<newline>Total: $'', column booking ''total_amount'',
      Lit ''\<newline>'']"

text \<open>Subject and text of the nodemailer variant's \<^verbatim>\<open>/notify/:bookingId\<close>.\<close>

definition subject_template :: "sqlrow \<Rightarrow> piece list" where
  "subject_template booking = [Lit ''Booking Confirmed: '', column booking ''hotel_name'']"

definition text_template :: "sqlrow \<Rightarrow> piece list" where
  "text_template booking =
     [Lit ''\<newline>Hello,\<newline>\<newline>Your booking is confirmed!\<newline>\<newline>Booking ID: '',
      column booking ''id'',
      Lit ''\<newline>Hotel: '', column booking ''hotel_name'',
      Lit ''\<newline>Check-in: '', column booking ''checkin'',
      Lit ''\<newline>Check-out: '', column booking ''checkout'',
      Lit ''\<newline>Guests: '', column booking ''guests'',
      Lit ''\<newline>Total Amount: $'', column booking ''total_amount'',
      Lit ''\<newline>\<newline>Thank you for booking with us!\<newline>'']"

text \<open>The HTML of the Resend variant's \<^verbatim>\<open>/notify/:bookingId\<close>.\<close>

definition html_template :: "sqlrow \<Rightarrow> piece list" where
  "html_template booking =
     [Lit ''\<newline>      <h2>Booking Confirmed!</h2>\<newline>      <p><strong>Hotel:</strong> '',
      column booking ''hotel_name'',
      Lit ''</p>\<newline>      <p><strong>Check-in:</strong> '', column booking ''checkin'',
      Lit ''</p>\<newline>      <p><strong>Check-out:</strong> '', column booking ''checkout'',
      Lit ''</p>\<newline>      <p><strong>Guests:</strong> '', column booking ''guests'',
      Lit ''</p>\<newline>      <p><strong>Total:</strong> $'', column booking ''total_amount'',
      Lit ''</p>\<newline>      <p>Status: '', column booking ''status'',
      Lit ''</p>\<newline>    '']"

text \<open>
  The three handlers. The route parameter \<open>bookingId\<close> is a string. Each reads
  the booking with \<^verbatim>\<open>db.get\<close>, renders the message from the object read and
  hands it to its provider; a rendering or delivery error is caught and answered
  with 500.
\<close>

definition notify_sms :: "key_eq \<Rightarrow> env \<Rightarrow> string \<Rightarrow> props \<Rightarrow> store \<Rightarrow> result" where
  "notify_sms eqid ev bookingId body rows =
     (let phone = field body ''phone'';
          failure = responded 500 (error_body ''Failed to send SMS'')
      in if \<not> truthy phone
         then responded 400 (error_body ''Missing phone number'') rows []
         else if \<not> db_ok ev then failure rows []
         else
           (case select_booking eqid (JStr bookingId) rows of
              None \<Rightarrow>
                responded 404 (error_body ''Booking not found'') rows [DbSelect (JStr bookingId)]
            | Some stored \<Rightarrow>
                (case render (sms_template (fetched ev stored)) of
                   Inl err \<Rightarrow> failure rows [DbSelect (JStr bookingId)]
                 | Inr message \<Rightarrow>
                     (let calls = [DbSelect (JStr bookingId), Deliver (SmsMessage phone message)]
                      in case delivery_res ev of
                           None \<Rightarrow> failure rows calls
                         | Some receipt \<Rightarrow>
                             responded 200 (JObj [(''message'', JStr ''SMS sent successfully'')])
                               rows calls))))"

definition notify_mailer :: "key_eq \<Rightarrow> env \<Rightarrow> string \<Rightarrow> props \<Rightarrow> store \<Rightarrow> result" where
  "notify_mailer eqid ev bookingId body rows =
     (let email = field body ''email'';
          failure = responded 500 (error_body ''Failed to send email'')
      in if \<not> truthy email
         then responded 400 (error_body ''Missing email'') rows []
         else if \<not> db_ok ev then failure rows []
         else
           (case select_booking eqid (JStr bookingId) rows of
              None \<Rightarrow>
                responded 404 (error_body ''Booking not found'') rows [DbSelect (JStr bookingId)]
            | Some stored \<Rightarrow>
                (case render (subject_template (fetched ev stored)) of
                   Inl err \<Rightarrow> failure rows [DbSelect (JStr bookingId)]
                 | Inr subject \<Rightarrow>
                     (case render (text_template (fetched ev stored)) of
                        Inl err \<Rightarrow> failure rows [DbSelect (JStr bookingId)]
                      | Inr text \<Rightarrow>
                          (let calls =
                                 [DbSelect (JStr bookingId), Deliver (Email email subject text)]
                           in case delivery_res ev of
                                None \<Rightarrow> failure rows calls
                              | Some receipt \<Rightarrow>
                                  responded 200
                                    (JObj [(''message'', JStr ''Email sent successfully'')])
                                    rows calls)))))"

definition notify_resend :: "key_eq \<Rightarrow> env \<Rightarrow> string \<Rightarrow> props \<Rightarrow> store \<Rightarrow> result" where
  "notify_resend eqid ev bookingId body rows =
     (let email = field body ''email'';
          failure = responded 500 (error_body ''Failed to send email'')
      in if \<not> db_ok ev then failure rows []
         else
           (case select_booking eqid (JStr bookingId) rows of
              None \<Rightarrow>
                responded 404 (error_body ''Booking not found'') rows [DbSelect (JStr bookingId)]
            | Some stored \<Rightarrow>
                (case render (subject_template (fetched ev stored)) of
                   Inl err \<Rightarrow> failure rows [DbSelect (JStr bookingId)]
                 | Inr subject \<Rightarrow>
                     (case render (html_template (fetched ev stored)) of
                        Inl err \<Rightarrow> failure rows [DbSelect (JStr bookingId)]
                      | Inr html \<Rightarrow>
                          (let calls =
                                 [DbSelect (JStr bookingId), Deliver (Email email subject html)]
                           in case delivery_res ev of
                                None \<Rightarrow> failure rows calls
                              | Some receipt \<Rightarrow>
                                  responded 200
                                    (JObj [(''message'', JStr ''Email sent''),
                                           (''response'', receipt)])
                                    rows calls)))))"

definition notify :: "variant \<Rightarrow> key_eq \<Rightarrow> env \<Rightarrow> string \<Rightarrow> props \<Rightarrow> store \<Rightarrow> result" where
  "notify v eqid ev bookingId body rows =
     (case v of
        Sms \<Rightarrow> notify_sms eqid ev bookingId body rows
      | Mailer \<Rightarrow> notify_mailer eqid ev bookingId body rows
      | Resend \<Rightarrow> notify_resend eqid ev bookingId body rows)"

section \<open>Sequences of requests\<close>

datatype request =
    Create env props
  | Confirm env props
  | Notify env string props

fun handle :: "variant \<Rightarrow> key_eq \<Rightarrow> request \<Rightarrow> store \<Rightarrow> result" where
  "handle v eqid (Create ev body) rows = bookings v ev body rows"
| "handle v eqid (Confirm ev body) rows = webhook v eqid ev body rows"
| "handle v eqid (Notify ev bookingId body) rows = notify v eqid ev bookingId body rows"

text \<open>The store after each request of a sequence, the initial store first.\<close>

fun run :: "variant \<Rightarrow> key_eq \<Rightarrow> request list \<Rightarrow> store \<Rightarrow> store list" where
  "run v eqid [] rows = [rows]"
| "run v eqid (r # rs) rows = rows # run v eqid rs (db (handle v eqid r rows))"

section \<open>Notions used by the properties\<close>

fun code :: "response \<Rightarrow> nat" where
  "code (Response c payload) = c"

text \<open>The events that change the store.\<close>

definition writes :: "event \<Rightarrow> bool" where
  "writes e = (case e of DbInsert b \<Rightarrow> True | DbUpdate st k \<Rightarrow> True | _ \<Rightarrow> False)"

text \<open>A call to PayPal made on behalf of the booking with the given key.\<close>

definition payment_call :: "nat \<Rightarrow> event \<Rightarrow> bool" where
  "payment_call bookingId e =
     (case e of
        PayPalAuth \<Rightarrow> True
      | PayPalOrder ord \<Rightarrow> return_bookingId ord = bookingId
      | _ \<Rightarrow> False)"

text \<open>
  The two ways the payment step fails: the answer to the token request holds no
  access token, or the list of links of the answer to the order holds no link
  whose \<open>rel\<close> is \<open>approve\<close>. No answer at all counts as a failure too.
\<close>

definition no_access_token :: "jsval \<Rightarrow> bool" where
  "no_access_token authData = (\<not> truthy (js_prop authData ''access_token''))"

definition no_approve_link :: "jsval \<Rightarrow> bool" where
  "no_approve_link orderData =
     (case js_prop orderData ''links'' of
        JArr ls \<Rightarrow> \<not> list_ex (\<lambda>l. js_prop l ''rel'' = JStr ''approve'') ls
      | _ \<Rightarrow> True)"

definition payment_step_fails :: "env \<Rightarrow> bool" where
  "payment_step_fails ev =
     ((case auth_res ev of None \<Rightarrow> True | Some authData \<Rightarrow> no_access_token authData)
      \<or> (case order_res ev of None \<Rightarrow> True | Some orderData \<Rightarrow> no_approve_link orderData))"


text \<open>
  The life of a booking. From one store to the next a row keeps its place, its key
  and its columns, and its status stays or goes from pending to confirmed; the
  rows behind the old ones are new, pending, and carry keys not used before.
\<close>

definition row_step :: "booking \<Rightarrow> booking \<Rightarrow> bool" where
  "row_step b b' =
     (b' = b\<lparr>status := status b'\<rparr>
      \<and> (status b' = status b \<or> (status b = ''pending'' \<and> status b' = ''confirmed'')))"

definition lifecycle_step :: "store \<Rightarrow> store \<Rightarrow> bool" where
  "lifecycle_step old new =
     (length old \<le> length new
      \<and> list_all2 row_step old (take (length old) new)
      \<and> list_all (\<lambda>b. status b = ''pending'' \<and> id_col b \<notin> set (map id_col old))
          (drop (length old) new))"

definition store_ok :: "store \<Rightarrow> bool" where
  "store_ok rows =
     (distinct (map id_col rows)
      \<and> list_all (\<lambda>b. status b = ''pending'' \<or> status b = ''confirmed'') rows)"

definition keeps_confirmed :: "store \<Rightarrow> store \<Rightarrow> bool" where
  "keeps_confirmed old new =
     list_all
       (\<lambda>j. status (old ! j) = ''confirmed'' \<longrightarrow>
          j < length new \<and> id_col (new ! j) = id_col (old ! j)
          \<and> status (new ! j) = ''confirmed'')
       [0 ..< length old]"

text \<open>The string a template literal makes of a column read from the database.\<close>

fun cell_string :: "cell \<Rightarrow> string" where
  "cell_string SqlNull = ''null''"
| "cell_string (SqlNumber n) = num_to_string n"
| "cell_string (SqlText s) = s"


text \<open>
  The lines of a confirmation mail that carry the hotel, the two dates, the number
  of guests and the total, in the text of the nodemailer variant and in the HTML
  of the Resend variant.
\<close>

definition mail_lines ::
  "variant \<Rightarrow> string \<Rightarrow> string \<Rightarrow> string \<Rightarrow> string \<Rightarrow> string \<Rightarrow> string list" where
  "mail_lines v h ci co g t =
     (if v = Resend
      then [''<p><strong>Hotel:</strong> '' @ h @ ''</p>'',
            ''<p><strong>Check-in:</strong> '' @ ci @ ''</p>'',
            ''<p><strong>Check-out:</strong> '' @ co @ ''</p>'',
            ''<p><strong>Guests:</strong> '' @ g @ ''</p>'',
            ''<p><strong>Total:</strong> $'' @ t @ ''</p>'']
      else [''\<newline>Hotel: '' @ h @ ''\<newline>'',
            ''\<newline>Check-in: '' @ ci @ ''\<newline>'',
            ''\<newline>Check-out: '' @ co @ ''\<newline>'',
            ''\<newline>Guests: '' @ g @ ''\<newline>'',
            ''\<newline>Total Amount: $'' @ t @ ''\<newline>''])"

text \<open>
  One key comparison to run the handlers with: a number, or a string that reads
  as a number, equal to the key.
\<close>

fun num_is_nat :: "jsnum \<Rightarrow> nat \<Rightarrow> bool" where
  "num_is_nat (Dec m e) n =
     (if 0 \<le> e then m * 10 ^ nat e = int n else m = int n * 10 ^ nat (- e))"
| "num_is_nat NaN n = False"
| "num_is_nat PosInf n = False"
| "num_is_nat NegInf n = False"

definition numeric_key :: key_eq where
  "numeric_key v n =
     (case v of
        JNum x \<Rightarrow> num_is_nat x n
      | JStr s \<Rightarrow> num_is_nat (string_to_number s) n
      | _ \<Rightarrow> False)"

text \<open>
  One answer of the database to run the handlers with. It follows SQLite for the
  values the handlers commonly bind: a number in a numeric column comes back as
  that number, \<open>NaN\<close> as \<open>null\<close>, a string in a text column as that string, an
  integer in a text column as its digits, a numeric string in the integer column
  as its number. For the other values it is a plain description only; no theorem
  depends on it.
\<close>

definition number_cell :: "jsnum \<Rightarrow> cell" where
  "number_cell n = (if n = NaN then SqlNull else SqlNumber n)"

definition text_cell :: "jsval \<Rightarrow> cell" where
  "text_cell v =
     (case v of
        JStr s \<Rightarrow> SqlText s
      | JNum n \<Rightarrow> if n = NaN then SqlNull else SqlText (num_to_string n)
      | JBool b \<Rightarrow> SqlText (if b then ''1'' else ''0'')
      | JArr xs \<Rightarrow> (case js_to_string v of Inl err \<Rightarrow> SqlNull | Inr s \<Rightarrow> SqlText s)
      | JObj kvs \<Rightarrow> (case js_to_string v of Inl err \<Rightarrow> SqlNull | Inr s \<Rightarrow> SqlText s)
      | _ \<Rightarrow> SqlNull)"

definition integer_cell :: "jsval \<Rightarrow> cell" where
  "integer_cell v =
     (case v of
        JNum n \<Rightarrow> number_cell n
      | JBool b \<Rightarrow> SqlNumber (Dec (if b then 1 else 0) 0)
      | JStr s \<Rightarrow>
          (case unsigned_decimal (if s \<noteq> [] \<and> hd s = CHR ''-'' then tl s else s) of
             Dec m e \<Rightarrow> SqlNumber (Dec (if s \<noteq> [] \<and> hd s = CHR ''-'' then - m else m) e)
           | _ \<Rightarrow> SqlText s)
      | _ \<Rightarrow> text_cell v)"

definition sqlite_fetched :: "booking \<Rightarrow> sqlrow" where
  "sqlite_fetched b name =
     (if name = ''id'' then SqlNumber (Dec (int (id_col b)) 0)
      else if name = ''user_id'' then number_cell (user_id b)
      else if name = ''hotel_name'' then text_cell (hotel_name b)
      else if name = ''checkin'' then text_cell (checkin b)
      else if name = ''checkout'' then text_cell (checkout b)
      else if name = ''guests'' then integer_cell (guests b)
      else if name = ''total_amount'' then number_cell (total_amount b)
      else if name = ''status'' then SqlText (status b)
      else SqlNull)"

section \<open>Example data\<close>

text \<open>
  A stored booking, and the one a creation request with total \<open>"abc"\<close> leaves;
  an environment in which PayPal grants a token and refuses the order, and the
  mail or SMS provider is down; one in which PayPal accepts the order; a creation
  request with falsy optional fields; a catalogue of 25 hotels and its listings.
\<close>

definition demo_row :: booking where
  "demo_row =
     \<lparr>id_col = 1, user_id = Dec 1 0, hotel_name = JStr ''Hilton'',
      checkin = JStr ''2025-01-02'', checkout = JStr ''N/A'', guests = JNum (Dec 2 0),
      total_amount = Dec 9950 (- 2), status = ''pending''\<rparr>"

definition abc_row :: booking where
  "abc_row =
     \<lparr>id_col = 1, user_id = Dec 1 0, hotel_name = JStr ''Hilton'',
      checkin = JStr ''N/A'', checkout = JStr ''N/A'', guests = JNum (Dec 1 0),
      total_amount = NaN, status = ''pending''\<rparr>"

definition demo_env :: env where
  "demo_env =
     \<lparr>db_ok = True,
      fetched = sqlite_fetched,
      auth_res = Some (JObj [(''access_token'', JStr ''A21AA'')]),
      order_res = Some (JObj [(''name'', JStr ''INVALID_REQUEST'')]),
      delivery_res = None\<rparr>"

definition paid_env :: env where
  "paid_env =
     \<lparr>db_ok = True,
      fetched = sqlite_fetched,
      auth_res = Some (JObj [(''access_token'', JStr ''A21AA'')]),
      order_res = Some (JObj [(''links'',
        JArr [JObj [(''rel'', JStr ''self''), (''href'', JStr ''https://paypal.test/o/5'')],
              JObj [(''rel'', JStr ''approve''), (''href'', JStr ''https://paypal.test/a/5'')]])]),
      delivery_res = Some JNull\<rparr>"

definition demo_body :: props where
  "demo_body =
     [(''hotelName'', JStr ''Hilton''), (''total'', JStr ''99.50''),
      (''guests'', JNum (Dec 0 0)), (''checkin'', JStr [])]"




definition demo_requests :: "request list" where
  "demo_requests =
     [Create paid_env demo_body,
      Confirm paid_env [(''bookingId'', JNum (Dec 1 0))],
      Create demo_env demo_body,
      Notify paid_env ''1'' [(''email'', JStr ''guest@example.com'')],
      Confirm paid_env [(''bookingId'', JNum (Dec 1 0))]]"

section \<open>Basic facts\<close>

lemma responded_simps [simp]:
  "reply (responded c p rows evs) = Response c p"
  "db (responded c p rows evs) = rows"
  "effects (responded c p rows evs) = evs"
  by (simp_all add: responded_def)

lemma db_notify_sms: "db (notify_sms eqid ev bookingId body rows) = rows"
  by (simp add: notify_sms_def Let_def split: option.split sum.split)

lemma db_notify_mailer: "db (notify_mailer eqid ev bookingId body rows) = rows"
  by (simp add: notify_mailer_def Let_def split: option.split sum.split)

lemma db_notify_resend: "db (notify_resend eqid ev bookingId body rows) = rows"
  by (simp add: notify_resend_def Let_def split: option.split sum.split)

lemma db_notify: "db (notify v eqid ev bookingId body rows) = rows"
  by (cases v) (simp_all add: notify_def db_notify_sms db_notify_mailer db_notify_resend)

lemma effects_notify_sms:
  "\<not> list_ex writes (effects (notify_sms eqid ev bookingId body rows))"
  by (simp add: notify_sms_def Let_def writes_def split: option.split sum.split)

lemma effects_notify_mailer:
  "\<not> list_ex writes (effects (notify_mailer eqid ev bookingId body rows))"
  by (simp add: notify_mailer_def Let_def writes_def split: option.split sum.split)

lemma effects_notify_resend:
  "\<not> list_ex writes (effects (notify_resend eqid ev bookingId body rows))"
  by (simp add: notify_resend_def Let_def writes_def split: option.split sum.split)

lemma le_foldr_max: "x \<in> set xs \<Longrightarrow> x \<le> foldr max xs (0::nat)"
  by (induction xs) (auto simp: max_def)

lemma next_id_fresh: "next_id rows \<notin> set (map id_col rows)"
proof
  assume "next_id rows \<in> set (map id_col rows)"
  then have "next_id rows \<le> foldr max (map id_col rows) 0"
    by (rule le_foldr_max)
  then show False
    by (simp add: next_id_def)
qed

lemma id_col_pending [simp]: "id_col (pending_booking body amt rows) = next_id rows"
  by (simp add: pending_booking_def)

lemma status_pending [simp]: "status (pending_booking body amt rows) = ''pending''"
  by (simp add: pending_booking_def)

subsection \<open>The creation handler, path by path\<close>

lemma request_payment_calls:
  "list_all (payment_call bookingId) (snd (request_payment v ev hotelName amt email bookingId))
   \<and> snd (request_payment v ev hotelName amt email bookingId) \<noteq> []"
  by (simp add: request_payment_def payment_call_def Let_def split: option.split sum.split)

lemma bookings_invalid:
  "\<not> truthy (field body ''hotelName'') \<or> \<not> truthy (field body ''total'') \<Longrightarrow>
   bookings v ev body rows = responded 400 (error_body ''Missing required fields'') rows []"
  by (auto simp: bookings_def Let_def)

lemma bookings_unavailable:
  "truthy (field body ''hotelName'') \<Longrightarrow> truthy (field body ''total'') \<Longrightarrow>
   \<not> db_ok ev \<or> isl (Number (field body ''total'')) \<Longrightarrow>
   bookings v ev body rows = responded 500 (error_body ''Failed to create booking'') rows []"
  by (auto simp: bookings_def Let_def isl_def split: sum.split)

lemma bookings_valid:
  assumes "truthy (field body ''hotelName'')" and "truthy (field body ''total'')"
    and "db_ok ev" and "Number (field body ''total'') = Inr amt"
  shows "db (bookings v ev body rows) = rows @ [pending_booking body amt rows]"
    and "effects (bookings v ev body rows) =
           DbInsert (pending_booking body amt rows)
           # snd (request_payment v ev (field body ''hotelName'') amt (field body ''email'')
                   (next_id rows))"
    and "reply (bookings v ev body rows) =
           (case fst (request_payment v ev (field body ''hotelName'') amt (field body ''email'')
                        (next_id rows)) of
              Inl err \<Rightarrow> Response 500 (error_body ''Failed to create booking'')
            | Inr approveLink \<Rightarrow>
                Response 200 (JObj [(''bookingId'', JNum (Dec (int (next_id rows)) 0)),
                                    (''approveUrl'', approveLink)]))"
  using assms
  by (simp_all add: bookings_def Let_def split: sum.split prod.split)

lemma db_bookings_cases:
  "db (bookings v ev body rows) = rows
   \<or> (\<exists>row. db (bookings v ev body rows) = rows @ [row]
        \<and> status row = ''pending'' \<and> id_col row = next_id rows)"
  by (simp add: bookings_def Let_def split: sum.split prod.split)

subsection \<open>A failing payment step\<close>

lemma find_approve_none:
  "\<not> list_ex (\<lambda>l. js_prop l ''rel'' = JStr ''approve'') ls \<Longrightarrow>
   isl (find_approve ls) \<or> find_approve ls = Inr JUndefined"
  by (induction ls) (auto simp: get_prop_def)

lemma approve_link_none:
  assumes "no_approve_link orderData"
  shows "isl (approve_link orderData) \<or> approve_link orderData = Inr JUndefined"
proof (cases "nullish orderData")
  case True
  then show ?thesis
    by (simp add: approve_link_def get_prop_def)
next
  case False
  show ?thesis
  proof (cases "js_prop orderData ''links''")
    case (JArr ls)
    with assms have "\<not> list_ex (\<lambda>l. js_prop l ''rel'' = JStr ''approve'') ls"
      by (simp add: no_approve_link_def)
    from find_approve_none [OF this] JArr False show ?thesis
      by (cases "find_approve ls")
         (auto simp: approve_link_def get_prop_def nullish_def)
  qed (use False in \<open>simp_all add: approve_link_def get_prop_def nullish_def\<close>)
qed

lemma request_payment_fails:
  assumes "payment_step_fails ev"
  shows "isl (fst (request_payment v ev hotelName amt email bookingId))"
proof -
  from assms consider
      (auth) "case auth_res ev of None \<Rightarrow> True | Some authData \<Rightarrow> no_access_token authData"
    | (order) "case order_res ev of None \<Rightarrow> True | Some orderData \<Rightarrow> no_approve_link orderData"
    by (auto simp: payment_step_fails_def)
  then show ?thesis
  proof cases
    case auth
    then show ?thesis
      by (auto simp: request_payment_def no_access_token_def get_prop_def
            split: option.splits sum.splits)
  next
    case order
    show ?thesis
    proof (cases "order_res ev")
      case None
      then show ?thesis
        by (simp add: request_payment_def Let_def split: option.split sum.split)
    next
      case (Some orderData)
      with order have "no_approve_link orderData" by simp
      from approve_link_none [OF this] Some show ?thesis
        by (auto simp: request_payment_def Let_def split: option.split sum.split)
    qed
  qed
qed

subsection \<open>Updates and lookups\<close>

lemma update_status_none:
  "\<forall>b \<in> set rows. \<not> eqid k (id_col b) \<Longrightarrow> update_status eqid st k rows = rows"
  by (induction rows) (simp_all add: update_status_def)

lemma update_status_twice:
  "update_status eqid st k (update_status eqid st k rows) = update_status eqid st k rows"
  by (induction rows) (simp_all add: update_status_def)

lemma select_update_status:
  "select_booking eqid k rows = Some b \<Longrightarrow>
   select_booking eqid k (update_status eqid st k rows) = Some (b\<lparr>status := st\<rparr>)"
  by (induction rows) (auto simp: select_booking_def update_status_def split: if_splits)

lemma select_None_iff:
  "select_booking eqid k rows = None \<longleftrightarrow> (\<forall>b \<in> set rows. \<not> eqid k (id_col b))"
  by (auto simp: select_booking_def find_None_iff)

lemma map_id_col_update_status [simp]:
  "map id_col (update_status eqid st k rows) = map id_col rows"
  by (induction rows) (simp_all add: update_status_def)

lemma length_update_status [simp]: "length (update_status eqid st k rows) = length rows"
  by (simp add: update_status_def)

subsection \<open>One step of the life of the store\<close>

lemma row_step_refl: "row_step b b"
  by (simp add: row_step_def)

lemma lifecycle_step_refl: "lifecycle_step rows rows"
  by (simp add: lifecycle_step_def list_all2_refl row_step_refl)

lemma lifecycle_step_insert:
  "status row = ''pending'' \<Longrightarrow> id_col row = next_id rows \<Longrightarrow>
   lifecycle_step rows (rows @ [row])"
  using next_id_fresh [of rows]
  by (simp add: lifecycle_step_def list_all2_refl row_step_refl)

lemma store_ok_insert:
  "store_ok rows \<Longrightarrow> status row = ''pending'' \<Longrightarrow> id_col row = next_id rows \<Longrightarrow>
   store_ok (rows @ [row])"
  using next_id_fresh [of rows]
  by (simp add: store_ok_def)

lemma lifecycle_step_confirm:
  assumes "store_ok rows"
  shows "lifecycle_step rows (update_status eqid ''confirmed'' k rows)"
proof -
  have "list_all (\<lambda>b. status b = ''pending'' \<or> status b = ''confirmed'') rows \<Longrightarrow>
        list_all2 row_step rows (update_status eqid ''confirmed'' k rows)"
    by (induction rows) (auto simp: update_status_def row_step_def)
  with assms show ?thesis
    by (simp add: lifecycle_step_def store_ok_def)
qed

lemma store_ok_confirm:
  assumes "store_ok rows"
  shows "store_ok (update_status eqid ''confirmed'' k rows)"
proof -
  have "list_all (\<lambda>b. status b = ''pending'' \<or> status b = ''confirmed'') rows \<Longrightarrow>
        list_all (\<lambda>b. status b = ''pending'' \<or> status b = ''confirmed'')
          (update_status eqid ''confirmed'' k rows)"
    by (induction rows) (simp_all add: update_status_def)
  with assms show ?thesis
    by (simp add: store_ok_def)
qed

lemma handle_step:
  assumes "store_ok rows"
  shows "lifecycle_step rows (db (handle v eqid r rows)) \<and> store_ok (db (handle v eqid r rows))"
proof (cases r)
  case (Create ev body)
  with assms db_bookings_cases [of v ev body rows] show ?thesis
    by (auto simp: lifecycle_step_refl lifecycle_step_insert store_ok_insert)
next
  case (Confirm ev body)
  with assms show ?thesis
    by (simp add: webhook_def Let_def lifecycle_step_refl lifecycle_step_confirm
          store_ok_confirm)
next
  case (Notify ev bookingId body)
  with assms show ?thesis
    by (simp add: db_notify lifecycle_step_refl)
qed

lemma lifecycle_step_keeps:
  assumes "lifecycle_step old new"
  shows "keeps_confirmed old new"
  unfolding keeps_confirmed_def list_all_iff
proof (intro ballI impI)
  fix j
  assume "j \<in> set [0 ..< length old]" and c: "status (old ! j) = ''confirmed''"
  then have j: "j < length old" by simp
  from assms have len: "length old \<le> length new"
    and all: "list_all2 row_step old (take (length old) new)"
    by (simp_all add: lifecycle_step_def)
  from all j have "row_step (old ! j) (take (length old) new ! j)"
    by (auto dest: list_all2_nthD)
  with j have rs: "row_step (old ! j) (new ! j)"
    by simp
  then have "new ! j = (old ! j)\<lparr>status := status (new ! j)\<rparr>"
    by (simp add: row_step_def)
  then have "id_col (new ! j) = id_col ((old ! j)\<lparr>status := status (new ! j)\<rparr>)"
    by simp
  then have "id_col (new ! j) = id_col (old ! j)"
    by simp
  with rs c j len
  show "j < length new \<and> id_col (new ! j) = id_col (old ! j) \<and> status (new ! j) = ''confirmed''"
    by (auto simp: row_step_def)
qed

subsection \<open>Runs\<close>

lemma length_run [simp]: "length (run v eqid reqs rows) = Suc (length reqs)"
  by (induction reqs arbitrary: rows) simp_all

lemma run_0 [simp]: "run v eqid reqs rows ! 0 = rows"
  by (cases reqs) simp_all

lemma run_steps:
  "store_ok rows \<Longrightarrow> i < length reqs \<Longrightarrow>
   lifecycle_step (run v eqid reqs rows ! i) (run v eqid reqs rows ! Suc i)
   \<and> store_ok (run v eqid reqs rows ! Suc i)"
proof (induction reqs arbitrary: rows i)
  case Nil
  then show ?case by simp
next
  case (Cons r rs)
  show ?case
  proof (cases i)
    case 0
    with Cons.prems handle_step [of rows v eqid r] show ?thesis
      by simp
  next
    case (Suc j)
    with Cons.prems handle_step [of rows v eqid r] Cons.IH [of "db (handle v eqid r rows)" j]
    show ?thesis
      by simp
  qed
qed

lemma run_store_ok:
  assumes "store_ok rows" and "k \<le> length reqs"
  shows "store_ok (run v eqid reqs rows ! k)"
proof (cases k)
  case 0
  with assms show ?thesis by simp
next
  case (Suc i)
  with assms run_steps [of rows i reqs v eqid] show ?thesis
    by simp
qed

lemma run_suffix:
  "i \<le> length reqs \<Longrightarrow>
   drop i (run v eqid reqs rows) = run v eqid (drop i reqs) (run v eqid reqs rows ! i)"
proof (induction reqs arbitrary: rows i)
  case Nil
  then show ?case by simp
next
  case (Cons r rs)
  then show ?case
    by (cases i) simp_all
qed

lemma run_keeps_confirmed:
  "store_ok rows \<Longrightarrow> S \<in> set (run v eqid reqs rows) \<Longrightarrow> keeps_confirmed rows S"
proof (induction reqs arbitrary: rows)
  case Nil
  then show ?case by (simp add: keeps_confirmed_def list_all_iff)
next
  case (Cons r rs)
  from Cons.prems(2) consider "S = rows" | "S \<in> set (run v eqid rs (db (handle v eqid r rows)))"
    by auto
  then show ?case
  proof cases
    case 1
    then show ?thesis by (simp add: keeps_confirmed_def list_all_iff)
  next
    case 2
    from handle_step [OF Cons.prems(1), of v eqid r]
    have a: "keeps_confirmed rows (db (handle v eqid r rows))"
      and ok: "store_ok (db (handle v eqid r rows))"
      by (simp_all add: lifecycle_step_keeps)
    from Cons.IH [OF ok 2] have b: "keeps_confirmed (db (handle v eqid r rows)) S" .
    from a b show ?thesis
      unfolding keeps_confirmed_def list_all_iff by fastforce
  qed
qed

subsection \<open>Rounding to a double\<close>

lemma bitlen_0 [simp]: "bitlen 0 = 0"
  by (simp add: bitlen.simps)












subsection \<open>Slices and windows\<close>







subsection \<open>Arithmetic on integral doubles\<close>





subsection \<open>The page of the hotel list\<close>



subsection \<open>Reading the page and the limit\<close>

lemma radix_digit_0 [simp]: "radix_digit CHR ''0'' = Some 0"
  by (simp add: radix_digit_def)

lemma radix_digit_1 [simp]: "radix_digit CHR ''1'' = Some 1"
  by (simp add: radix_digit_def)









subsection \<open>Rendered mails\<close>

lemma sublist_mid: "ys = ps @ xs @ ss \<Longrightarrow> sublist xs ys"
  by (auto simp: sublist_def)

lemma js_to_string_cell [simp]: "js_to_string (cell_value c) = Inr (cell_string c)"
  by (cases c) simp_all

lemma subject_template_render:
  "render (subject_template r) = Inr (''Booking Confirmed: '' @ cell_string (r ''hotel_name''))"
  by (simp add: subject_template_def column_def)

lemma text_template_render:
  "render (text_template r) =
     Inr (''\<newline>Hello,\<newline>\<newline>Your booking is confirmed!\<newline>\<newline>Booking ID: ''
          @ cell_string (r ''id'')
          @ ''\<newline>Hotel: '' @ cell_string (r ''hotel_name'')
          @ ''\<newline>Check-in: '' @ cell_string (r ''checkin'')
          @ ''\<newline>Check-out: '' @ cell_string (r ''checkout'')
          @ ''\<newline>Guests: '' @ cell_string (r ''guests'')
          @ ''\<newline>Total Amount: $'' @ cell_string (r ''total_amount'')
          @ ''\<newline>\<newline>Thank you for booking with us!\<newline>'')"
  by (simp add: text_template_def column_def)

lemma html_template_render:
  "render (html_template r) =
     Inr (''\<newline>      <h2>Booking Confirmed!</h2>\<newline>      <p><strong>Hotel:</strong> ''
          @ cell_string (r ''hotel_name'')
          @ ''</p>\<newline>      <p><strong>Check-in:</strong> '' @ cell_string (r ''checkin'')
          @ ''</p>\<newline>      <p><strong>Check-out:</strong> '' @ cell_string (r ''checkout'')
          @ ''</p>\<newline>      <p><strong>Guests:</strong> '' @ cell_string (r ''guests'')
          @ ''</p>\<newline>      <p><strong>Total:</strong> $''
          @ cell_string (r ''total_amount'')
          @ ''</p>\<newline>      <p>Status: '' @ cell_string (r ''status'') @ ''</p>\<newline>    '')"
  by (simp add: html_template_def column_def)

lemma text_lines:
  assumes "content =
             intro @ i @ ''\<newline>Hotel: '' @ h @ ''\<newline>Check-in: '' @ ci
             @ ''\<newline>Check-out: '' @ co @ ''\<newline>Guests: '' @ g
             @ ''\<newline>Total Amount: $'' @ t @ ''\<newline>\<newline>Thank you for booking with us!\<newline>''"
  shows "list_all (\<lambda>line. sublist line content) (mail_lines Mailer h ci co g t)"
proof -
  have "sublist (''\<newline>Hotel: '' @ h @ ''\<newline>'') content"
    by (rule sublist_mid
          [where ps = "intro @ i"
             and ss = "''Check-in: '' @ ci @ ''\<newline>Check-out: '' @ co @ ''\<newline>Guests: '' @ g
                       @ ''\<newline>Total Amount: $'' @ t
                       @ ''\<newline>\<newline>Thank you for booking with us!\<newline>''"])
       (simp add: assms)
  moreover have "sublist (''\<newline>Check-in: '' @ ci @ ''\<newline>'') content"
    by (rule sublist_mid
          [where ps = "intro @ i @ ''\<newline>Hotel: '' @ h"
             and ss = "''Check-out: '' @ co @ ''\<newline>Guests: '' @ g
                       @ ''\<newline>Total Amount: $'' @ t
                       @ ''\<newline>\<newline>Thank you for booking with us!\<newline>''"])
       (simp add: assms)
  moreover have "sublist (''\<newline>Check-out: '' @ co @ ''\<newline>'') content"
    by (rule sublist_mid
          [where ps = "intro @ i @ ''\<newline>Hotel: '' @ h @ ''\<newline>Check-in: '' @ ci"
             and ss = "''Guests: '' @ g @ ''\<newline>Total Amount: $'' @ t
                       @ ''\<newline>\<newline>Thank you for booking with us!\<newline>''"])
       (simp add: assms)
  moreover have "sublist (''\<newline>Guests: '' @ g @ ''\<newline>'') content"
    by (rule sublist_mid
          [where ps = "intro @ i @ ''\<newline>Hotel: '' @ h @ ''\<newline>Check-in: '' @ ci
                       @ ''\<newline>Check-out: '' @ co"
             and ss = "''Total Amount: $'' @ t
                       @ ''\<newline>\<newline>Thank you for booking with us!\<newline>''"])
       (simp add: assms)
  moreover have "sublist (''\<newline>Total Amount: $'' @ t @ ''\<newline>'') content"
    by (rule sublist_mid
          [where ps = "intro @ i @ ''\<newline>Hotel: '' @ h @ ''\<newline>Check-in: '' @ ci
                       @ ''\<newline>Check-out: '' @ co @ ''\<newline>Guests: '' @ g"
             and ss = "''\<newline>Thank you for booking with us!\<newline>''"])
       (simp add: assms)
  ultimately show ?thesis
    by (simp add: mail_lines_def)
qed

lemma html_lines:
  assumes "content =
             intro @ ''<p><strong>Hotel:</strong> '' @ h
             @ ''</p>\<newline>      <p><strong>Check-in:</strong> '' @ ci
             @ ''</p>\<newline>      <p><strong>Check-out:</strong> '' @ co
             @ ''</p>\<newline>      <p><strong>Guests:</strong> '' @ g
             @ ''</p>\<newline>      <p><strong>Total:</strong> $'' @ t
             @ ''</p>'' @ outro"
  shows "list_all (\<lambda>line. sublist line content) (mail_lines Resend h ci co g t)"
proof -
  have "sublist (''<p><strong>Hotel:</strong> '' @ h @ ''</p>'') content"
    by (rule sublist_mid
          [where ps = intro
             and ss = "''\<newline>      <p><strong>Check-in:</strong> '' @ ci
                       @ ''</p>\<newline>      <p><strong>Check-out:</strong> '' @ co
                       @ ''</p>\<newline>      <p><strong>Guests:</strong> '' @ g
                       @ ''</p>\<newline>      <p><strong>Total:</strong> $'' @ t
                       @ ''</p>'' @ outro"])
       (simp add: assms)
  moreover have "sublist (''<p><strong>Check-in:</strong> '' @ ci @ ''</p>'') content"
    by (rule sublist_mid
          [where ps = "intro @ ''<p><strong>Hotel:</strong> '' @ h @ ''</p>\<newline>      ''"
             and ss = "''\<newline>      <p><strong>Check-out:</strong> '' @ co
                       @ ''</p>\<newline>      <p><strong>Guests:</strong> '' @ g
                       @ ''</p>\<newline>      <p><strong>Total:</strong> $'' @ t
                       @ ''</p>'' @ outro"])
       (simp add: assms)
  moreover have "sublist (''<p><strong>Check-out:</strong> '' @ co @ ''</p>'') content"
    by (rule sublist_mid
          [where ps = "intro @ ''<p><strong>Hotel:</strong> '' @ h
                       @ ''</p>\<newline>      <p><strong>Check-in:</strong> '' @ ci
                       @ ''</p>\<newline>      ''"
             and ss = "''\<newline>      <p><strong>Guests:</strong> '' @ g
                       @ ''</p>\<newline>      <p><strong>Total:</strong> $'' @ t
                       @ ''</p>'' @ outro"])
       (simp add: assms)
  moreover have "sublist (''<p><strong>Guests:</strong> '' @ g @ ''</p>'') content"
    by (rule sublist_mid
          [where ps = "intro @ ''<p><strong>Hotel:</strong> '' @ h
                       @ ''</p>\<newline>      <p><strong>Check-in:</strong> '' @ ci
                       @ ''</p>\<newline>      <p><strong>Check-out:</strong> '' @ co
                       @ ''</p>\<newline>      ''"
             and ss = "''\<newline>      <p><strong>Total:</strong> $'' @ t @ ''</p>'' @ outro"])
       (simp add: assms)
  moreover have "sublist (''<p><strong>Total:</strong> $'' @ t @ ''</p>'') content"
    by (rule sublist_mid
          [where ps = "intro @ ''<p><strong>Hotel:</strong> '' @ h
                       @ ''</p>\<newline>      <p><strong>Check-in:</strong> '' @ ci
                       @ ''</p>\<newline>      <p><strong>Check-out:</strong> '' @ co
                       @ ''</p>\<newline>      <p><strong>Guests:</strong> '' @ g
                       @ ''</p>\<newline>      ''"
             and ss = outro])
       (simp add: assms)
  ultimately show ?thesis
    by (simp add: mail_lines_def)
qed

lemma notify_mailer_delivers:
  assumes "db_ok ev" and "truthy (field body ''email'')"
    and "select_booking eqid (JStr bookingId) rows = Some b"
  shows "\<exists>subject content.
           effects (notify_mailer eqid ev bookingId body rows) =
             [DbSelect (JStr bookingId), Deliver (Email (field body ''email'') subject content)]
           \<and> list_all (\<lambda>line. sublist line content)
               (mail_lines Mailer (cell_string (fetched ev b ''hotel_name''))
                  (cell_string (fetched ev b ''checkin''))
                  (cell_string (fetched ev b ''checkout''))
                  (cell_string (fetched ev b ''guests''))
                  (cell_string (fetched ev b ''total_amount'')))"
proof -
  define r where "r = fetched ev b"
  let ?content =
    "''\<newline>Hello,\<newline>\<newline>Your booking is confirmed!\<newline>\<newline>Booking ID: ''
     @ cell_string (r ''id'')
     @ ''\<newline>Hotel: '' @ cell_string (r ''hotel_name'')
     @ ''\<newline>Check-in: '' @ cell_string (r ''checkin'')
     @ ''\<newline>Check-out: '' @ cell_string (r ''checkout'')
     @ ''\<newline>Guests: '' @ cell_string (r ''guests'')
     @ ''\<newline>Total Amount: $'' @ cell_string (r ''total_amount'')
     @ ''\<newline>\<newline>Thank you for booking with us!\<newline>''"
  have "effects (notify_mailer eqid ev bookingId body rows) =
          [DbSelect (JStr bookingId),
           Deliver (Email (field body ''email'')
             (''Booking Confirmed: '' @ cell_string (r ''hotel_name'')) ?content)]"
    using assms
    by (simp add: notify_mailer_def Let_def r_def subject_template_render text_template_render
          split: option.split)
  moreover have "list_all (\<lambda>line. sublist line ?content)
                   (mail_lines Mailer (cell_string (r ''hotel_name''))
                      (cell_string (r ''checkin'')) (cell_string (r ''checkout''))
                      (cell_string (r ''guests'')) (cell_string (r ''total_amount'')))"
    by (rule text_lines
          [where intro = "''\<newline>Hello,\<newline>\<newline>Your booking is confirmed!\<newline>\<newline>Booking ID: ''"
             and i = "cell_string (r ''id'')"])
       simp
  ultimately show ?thesis
    unfolding r_def by blast
qed

lemma notify_resend_delivers:
  assumes "db_ok ev"
    and "select_booking eqid (JStr bookingId) rows = Some b"
  shows "\<exists>subject content.
           effects (notify_resend eqid ev bookingId body rows) =
             [DbSelect (JStr bookingId), Deliver (Email (field body ''email'') subject content)]
           \<and> list_all (\<lambda>line. sublist line content)
               (mail_lines Resend (cell_string (fetched ev b ''hotel_name''))
                  (cell_string (fetched ev b ''checkin''))
                  (cell_string (fetched ev b ''checkout''))
                  (cell_string (fetched ev b ''guests''))
                  (cell_string (fetched ev b ''total_amount'')))"
proof -
  define r where "r = fetched ev b"
  let ?content =
    "''\<newline>      <h2>Booking Confirmed!</h2>\<newline>      <p><strong>Hotel:</strong> ''
     @ cell_string (r ''hotel_name'')
     @ ''</p>\<newline>      <p><strong>Check-in:</strong> '' @ cell_string (r ''checkin'')
     @ ''</p>\<newline>      <p><strong>Check-out:</strong> '' @ cell_string (r ''checkout'')
     @ ''</p>\<newline>      <p><strong>Guests:</strong> '' @ cell_string (r ''guests'')
     @ ''</p>\<newline>      <p><strong>Total:</strong> $''
     @ cell_string (r ''total_amount'')
     @ ''</p>\<newline>      <p>Status: '' @ cell_string (r ''status'') @ ''</p>\<newline>    ''"
  have "effects (notify_resend eqid ev bookingId body rows) =
          [DbSelect (JStr bookingId),
           Deliver (Email (field body ''email'')
             (''Booking Confirmed: '' @ cell_string (r ''hotel_name'')) ?content)]"
    using assms
    by (simp add: notify_resend_def Let_def r_def subject_template_render html_template_render
          split: option.split)
  moreover have "list_all (\<lambda>line. sublist line ?content)
                   (mail_lines Resend (cell_string (r ''hotel_name''))
                      (cell_string (r ''checkin'')) (cell_string (r ''checkout''))
                      (cell_string (r ''guests'')) (cell_string (r ''total_amount'')))"
    by (rule html_lines
          [where intro = "''\<newline>      <h2>Booking Confirmed!</h2>\<newline>      ''"
             and outro = "''\<newline>      <p>Status: '' @ cell_string (r ''status'') @ ''</p>\<newline>    ''"])
       simp
  ultimately show ?thesis
    unfolding r_def by blast
qed

section \<open>The booking is written before PayPal is called\<close>

text \<open>
  C1. For every creation request that passes the validation (\<open>hotelName\<close> and
  \<open>total\<close> present), the first effect of the handler is the insert of a row with
  status pending under a key the table did not hold; the calls to PayPal (token
  request, order) come after it, every order carries that key for its return URL,
  and so does a successful answer. The row is in the returned store. The handler
  stops before the insert only when the database rejects the statement or
  \<open>Number(total)\<close> throws, and then it has called no one.
\<close>

theorem booking_persisted_before_payment:
  assumes "truthy (field body ''hotelName'')" and "truthy (field body ''total'')"
  shows "if db_ok ev \<and> \<not> isl (Number (field body ''total''))
         then \<exists>row calls.
                effects (bookings v ev body rows) = DbInsert row # calls
                \<and> db (bookings v ev body rows) = rows @ [row]
                \<and> status row = ''pending''
                \<and> id_col row \<notin> set (map id_col rows)
                \<and> calls \<noteq> [] \<and> list_all (payment_call (id_col row)) calls
                \<and> (code (reply (bookings v ev body rows)) = 200 \<longrightarrow>
                     (\<exists>approveLink. reply (bookings v ev body rows) =
                        Response 200 (JObj [(''bookingId'', JNum (Dec (int (id_col row)) 0)),
                                            (''approveUrl'', approveLink)])))
         else effects (bookings v ev body rows) = [] \<and> db (bookings v ev body rows) = rows
              \<and> code (reply (bookings v ev body rows)) = 500"
proof (cases "db_ok ev \<and> \<not> isl (Number (field body ''total''))")
  case True
  then obtain amt where amt: "Number (field body ''total'') = Inr amt"
    by (cases "Number (field body ''total'')") auto
  from True have ok: "db_ok ev" by simp
  let ?row = "pending_booking body amt rows"
  let ?pay = "request_payment v ev (field body ''hotelName'') amt (field body ''email'')
                (next_id rows)"
  note b = bookings_valid [OF assms ok amt, of v rows]
  have calls: "snd ?pay \<noteq> []" "list_all (payment_call (id_col ?row)) (snd ?pay)"
    using request_payment_calls
      [of "next_id rows" v ev "field body ''hotelName''" amt "field body ''email''"]
    by simp_all
  have fresh: "id_col ?row \<notin> set (map id_col rows)"
    using next_id_fresh [of rows] by simp
  have rep: "code (reply (bookings v ev body rows)) = 200 \<longrightarrow>
               (\<exists>approveLink. reply (bookings v ev body rows) =
                  Response 200 (JObj [(''bookingId'', JNum (Dec (int (id_col ?row)) 0)),
                                      (''approveUrl'', approveLink)]))"
    using b(3) by (cases "fst ?pay") simp_all
  have "effects (bookings v ev body rows) = DbInsert ?row # snd ?pay
        \<and> db (bookings v ev body rows) = rows @ [?row]
        \<and> status ?row = ''pending''
        \<and> id_col ?row \<notin> set (map id_col rows)
        \<and> snd ?pay \<noteq> [] \<and> list_all (payment_call (id_col ?row)) (snd ?pay)
        \<and> (code (reply (bookings v ev body rows)) = 200 \<longrightarrow>
              (\<exists>approveLink. reply (bookings v ev body rows) =
                 Response 200 (JObj [(''bookingId'', JNum (Dec (int (id_col ?row)) 0)),
                                     (''approveUrl'', approveLink)])))"
    using b(1,2) calls fresh rep by simp
  then have "\<exists>row calls.
                effects (bookings v ev body rows) = DbInsert row # calls
                \<and> db (bookings v ev body rows) = rows @ [row]
                \<and> status row = ''pending''
                \<and> id_col row \<notin> set (map id_col rows)
                \<and> calls \<noteq> [] \<and> list_all (payment_call (id_col row)) calls
                \<and> (code (reply (bookings v ev body rows)) = 200 \<longrightarrow>
                     (\<exists>approveLink. reply (bookings v ev body rows) =
                        Response 200 (JObj [(''bookingId'', JNum (Dec (int (id_col row)) 0)),
                                            (''approveUrl'', approveLink)])))"
    by blast
  with True show ?thesis
    by simp
next
  case False
  with bookings_unavailable [OF assms, of ev v rows] show ?thesis
    by auto
qed

theorem booking_persisted_before_payment_witness:
  "truthy (field demo_body ''hotelName'') \<and> truthy (field demo_body ''total'')
   \<and> db_ok paid_env \<and> \<not> isl (Number (field demo_body ''total''))
   \<and> (\<exists>row calls.
         effects (bookings Resend paid_env demo_body [demo_row]) = DbInsert row # calls
         \<and> db (bookings Resend paid_env demo_body [demo_row]) = [demo_row] @ [row]
         \<and> status row = ''pending''
         \<and> id_col row \<notin> set (map id_col [demo_row])
         \<and> calls \<noteq> [] \<and> list_all (payment_call (id_col row)) calls)"
proof -
  have h1: "truthy (field demo_body ''hotelName'')"
    and h2: "truthy (field demo_body ''total'')"
    by (simp_all add: demo_body_def field_def)
  have c: "db_ok paid_env \<and> \<not> isl (Number (field demo_body ''total''))"
    by (simp add: demo_body_def field_def paid_env_def)
  have "\<exists>row calls.
         effects (bookings Resend paid_env demo_body [demo_row]) = DbInsert row # calls
         \<and> db (bookings Resend paid_env demo_body [demo_row]) = [demo_row] @ [row]
         \<and> status row = ''pending''
         \<and> id_col row \<notin> set (map id_col [demo_row])
         \<and> calls \<noteq> [] \<and> list_all (payment_call (id_col row)) calls"
    using booking_persisted_before_payment [OF h1 h2, of paid_env Resend "[demo_row]"]
    unfolding if_P [OF c] by blast
  with h1 h2 c show ?thesis
    by blast
qed

section \<open>Confirming an unknown booking\<close>

text \<open>
  C2, as the claim states it, fails: with one booking stored under key 1, the
  confirmation of key 99 matches no row and is answered with 200 \<open>ok\<close>, not
  with not-found. The store is unchanged.
\<close>

theorem webhook_unknown_id_counterexample:
  "select_booking numeric_key (JNum (Dec 99 0)) [demo_row] = None
   \<and> webhook Sms numeric_key demo_env [(''bookingId'', JNum (Dec 99 0))] [demo_row]
       = \<lparr>reply = Response 200 (JStr ''ok''), db = [demo_row],
          effects = [DbUpdate ''confirmed'' (JNum (Dec 99 0))]\<rparr>"
  by (simp add: webhook_def select_booking_def numeric_key_def demo_row_def demo_env_def
        field_def responded_def update_status_def)

text \<open>
  C2, amended. Confirming a \<open>bookingId\<close> that matches no stored booking leaves the
  store as it was, so no row is created; the answer is never 404: it is 200 when
  the id is truthy and the database takes the statement, and otherwise the handler
  has sent no statement at all.
\<close>

theorem webhook_unknown_id:
  assumes "select_booking eqid (field body ''bookingId'') rows = None"
  shows "db (webhook v eqid ev body rows) = rows
         \<and> code (reply (webhook v eqid ev body rows)) \<noteq> 404
         \<and> (if truthy (field body ''bookingId'') \<and> db_ok ev
            then code (reply (webhook v eqid ev body rows)) = 200
            else effects (webhook v eqid ev body rows) = [])"
  using assms
  by (simp add: webhook_def Let_def select_None_iff update_status_none)

theorem webhook_unknown_id_witness:
  "select_booking numeric_key (field [(''bookingId'', JStr ''7'')] ''bookingId'') [demo_row]
     = None
   \<and> db (webhook Resend numeric_key demo_env [(''bookingId'', JStr ''7'')] [demo_row])
       = [demo_row]
   \<and> code (reply (webhook Resend numeric_key demo_env [(''bookingId'', JStr ''7'')] [demo_row]))
       = 200"
proof -
  have h: "select_booking numeric_key (field [(''bookingId'', JStr ''7'')] ''bookingId'')
             [demo_row] = None"
    by code_simp
  have t: "truthy (field [(''bookingId'', JStr ''7'')] ''bookingId'') \<and> db_ok demo_env"
    by (simp add: field_def demo_env_def)
  from webhook_unknown_id [OF h, of Resend demo_env] t h show ?thesis
    by simp
qed

section \<open>Validation of a creation request\<close>

text \<open>
  C3, as the claim states it, fails for \<open>total = "abc"\<close>: the string is truthy, so
  the request passes the check, \<open>Number("abc")\<close> is \<open>NaN\<close>, a pending row with
  that total is written, and PayPal is asked for a token and sent an order. Here
  PayPal refuses the order, and the answer is 500, not 400.
\<close>

theorem total_abc_counterexample:
  "bookings Sms demo_env [(''hotelName'', JStr ''Hilton''), (''total'', JStr ''abc'')] []
   = \<lparr>reply = Response 500 (JObj [(''error'', JStr ''Failed to create booking'')]),
      db = [\<lparr>id_col = 1, user_id = Dec 1 0, hotel_name = JStr ''Hilton'',
             checkin = JStr ''N/A'', checkout = JStr ''N/A'', guests = JNum (Dec 1 0),
             total_amount = NaN, status = ''pending''\<rparr>],
      effects =
        [DbInsert \<lparr>id_col = 1, user_id = Dec 1 0, hotel_name = JStr ''Hilton'',
                   checkin = JStr ''N/A'', checkout = JStr ''N/A'', guests = JNum (Dec 1 0),
                   total_amount = NaN, status = ''pending''\<rparr>,
         PayPalAuth,
         PayPalOrder \<lparr>bearer = ''A21AA'', amount = NaN, description = JStr ''Hilton'',
                      return_bookingId = 1, return_email = ''user@example.com''\<rparr>]\<rparr>"
  by code_simp

text \<open>
  C3, amended. A creation request is rejected with 400 exactly when \<open>hotelName\<close>
  or \<open>total\<close> is missing or falsy (absent, \<open>null\<close>, \<open>false\<close>, 0, \<open>NaN\<close>, the
  empty string), and a rejected request writes no row and calls no provider. A
  total that is a non-empty string, numeric or not, is not rejected.
\<close>

theorem validation_rejects_missing:
  "(code (reply (bookings v ev body rows)) = 400
      \<longleftrightarrow> \<not> truthy (field body ''hotelName'') \<or> \<not> truthy (field body ''total''))
   \<and> (code (reply (bookings v ev body rows)) = 400
      \<longrightarrow> db (bookings v ev body rows) = rows \<and> effects (bookings v ev body rows) = [])"
proof (cases "\<not> truthy (field body ''hotelName'') \<or> \<not> truthy (field body ''total'')")
  case True
  then show ?thesis
    by (simp add: bookings_invalid)
next
  case False
  then have valid: "truthy (field body ''hotelName'')" "truthy (field body ''total'')"
    by simp_all
  show ?thesis
  proof (cases "db_ok ev \<and> \<not> isl (Number (field body ''total''))")
    case True
    then obtain amt where amt: "Number (field body ''total'') = Inr amt"
      by (cases "Number (field body ''total'')") auto
    from True have ok: "db_ok ev" by simp
    from bookings_valid(3) [OF valid ok amt, of v rows]
    have "code (reply (bookings v ev body rows)) \<noteq> 400"
      by (simp split: sum.split)
    with valid show ?thesis by simp
  next
    case False
    with bookings_unavailable [OF valid, of ev v rows] valid show ?thesis
      by auto
  qed
qed

theorem validation_rejects_missing_witness:
  "\<not> truthy (field [(''total'', JStr ''99.50'')] ''hotelName'')
   \<and> code (reply (bookings Mailer paid_env [(''total'', JStr ''99.50'')] [demo_row])) = 400
   \<and> db (bookings Mailer paid_env [(''total'', JStr ''99.50'')] [demo_row]) = [demo_row]
   \<and> effects (bookings Mailer paid_env [(''total'', JStr ''99.50'')] [demo_row]) = []"
proof -
  have h: "\<not> truthy (field [(''total'', JStr ''99.50'')] ''hotelName'')"
    by (simp add: field_def)
  with validation_rejects_missing [of Mailer paid_env "[(''total'', JStr ''99.50'')]" "[demo_row]"]
  show ?thesis
    by blast
qed

section \<open>The status of a booking only moves forward\<close>

text \<open>
  C4. Start from a store whose keys are distinct and whose statuses are pending or
  confirmed, and run any sequence of creation, confirmation and notification
  requests. Between any store \<open>i\<close> of the run and any later store \<open>k\<close>, a booking
  that is confirmed stays in its place, keeps its key and stays confirmed. From a
  store to the next, every old row keeps all its columns but the status, which
  stays or goes from pending to confirmed; every new row is pending and has a key
  no old row has. Every store of the run has distinct keys and only the two
  statuses.
\<close>

theorem status_lifecycle:
  assumes "store_ok rows" and "i \<le> k" and "k \<le> length reqs"
  shows "store_ok (run v eqid reqs rows ! k)
         \<and> keeps_confirmed (run v eqid reqs rows ! i) (run v eqid reqs rows ! k)
         \<and> (k = Suc i \<longrightarrow>
              lifecycle_step (run v eqid reqs rows ! i) (run v eqid reqs rows ! k))"
proof -
  let ?R = "run v eqid reqs rows"
  from assms have i: "i \<le> length reqs" by simp
  have ok_i: "store_ok (?R ! i)"
    using assms(1) i by (rule run_store_ok)
  have ok_k: "store_ok (?R ! k)"
    using assms(1,3) by (rule run_store_ok)
  have "?R ! k = drop i ?R ! (k - i)"
    using assms(2,3) by simp
  also have "drop i ?R = run v eqid (drop i reqs) (?R ! i)"
    using i by (rule run_suffix)
  finally have "?R ! k \<in> set (run v eqid (drop i reqs) (?R ! i))"
    using assms(2,3) by (simp del: run.simps)
  with ok_i have keeps: "keeps_confirmed (?R ! i) (?R ! k)"
    by (rule run_keeps_confirmed)
  have "k = Suc i \<longrightarrow> lifecycle_step (?R ! i) (?R ! k)"
    using run_steps [of rows i reqs v eqid] assms(1,3) by auto
  with ok_k keeps show ?thesis
    by simp
qed

theorem status_lifecycle_witness:
  "store_ok [] \<and> (1::nat) \<le> 2 \<and> 2 \<le> length demo_requests
   \<and> store_ok (run Resend numeric_key demo_requests [] ! 2)
   \<and> keeps_confirmed (run Resend numeric_key demo_requests [] ! 1)
        (run Resend numeric_key demo_requests [] ! 2)
   \<and> lifecycle_step (run Resend numeric_key demo_requests [] ! 1)
        (run Resend numeric_key demo_requests [] ! 2)
   \<and> map status (run Resend numeric_key demo_requests [] ! 1) = [''pending'']
   \<and> map status (run Resend numeric_key demo_requests [] ! 2) = [''confirmed'']
   \<and> map status (run Resend numeric_key demo_requests [] ! 5) = [''confirmed'', ''pending'']"
proof -
  note demo_eval =
    demo_requests_def bookings_def webhook_def db_notify paid_env_def demo_env_def
    demo_body_def field_def Let_def request_payment_def approve_link_def get_prop_def
    nullish_def js_or_def pending_booking_def next_id_def update_status_def numeric_key_def
    responded_def
  have h: "store_ok []" "(1::nat) \<le> 2" "2 \<le> length demo_requests"
    by (simp_all add: store_ok_def demo_requests_def)
  have s1: "map status (run Resend numeric_key demo_requests [] ! 1) = [''pending'']"
    by (simp add: demo_eval)
  have s2: "map status (run Resend numeric_key demo_requests [] ! 2) = [''confirmed'']"
    by (simp add: demo_eval)
  have s5: "map status (run Resend numeric_key demo_requests [] ! 5)
              = [''confirmed'', ''pending'']"
    by (simp add: demo_eval)
  from status_lifecycle [OF h, of Resend numeric_key] h s1 s2 s5 show ?thesis
    by simp
qed

section \<open>Confirmation is idempotent\<close>

text \<open>
  C5. Confirming twice gives the same store, and the same answer, as confirming
  once; and when the \<open>bookingId\<close> is that of a stored booking (and the database
  takes the statement), that booking is read back with status confirmed and its
  other columns untouched, after one confirmation as after two.
\<close>

theorem confirm_idempotent:
  "db (webhook v eqid ev body (db (webhook v eqid ev body rows)))
     = db (webhook v eqid ev body rows)
   \<and> reply (webhook v eqid ev body (db (webhook v eqid ev body rows)))
     = reply (webhook v eqid ev body rows)
   \<and> (truthy (field body ''bookingId'') \<and> db_ok ev
        \<and> select_booking eqid (field body ''bookingId'') rows = Some b
      \<longrightarrow> select_booking eqid (field body ''bookingId'') (db (webhook v eqid ev body rows))
            = Some (b\<lparr>status := ''confirmed''\<rparr>)
          \<and> select_booking eqid (field body ''bookingId'')
              (db (webhook v eqid ev body (db (webhook v eqid ev body rows))))
            = Some (b\<lparr>status := ''confirmed''\<rparr>))"
  by (simp add: webhook_def Let_def update_status_twice select_update_status)

theorem confirm_idempotent_witness:
  "truthy (field [(''bookingId'', JNum (Dec 1 0))] ''bookingId'') \<and> db_ok demo_env
   \<and> select_booking numeric_key (field [(''bookingId'', JNum (Dec 1 0))] ''bookingId'')
        [demo_row] = Some demo_row
   \<and> db (webhook Sms numeric_key demo_env [(''bookingId'', JNum (Dec 1 0))]
        (db (webhook Sms numeric_key demo_env [(''bookingId'', JNum (Dec 1 0))] [demo_row])))
      = db (webhook Sms numeric_key demo_env [(''bookingId'', JNum (Dec 1 0))] [demo_row])
   \<and> select_booking numeric_key (field [(''bookingId'', JNum (Dec 1 0))] ''bookingId'')
        (db (webhook Sms numeric_key demo_env [(''bookingId'', JNum (Dec 1 0))]
          (db (webhook Sms numeric_key demo_env [(''bookingId'', JNum (Dec 1 0))] [demo_row]))))
      = Some (demo_row\<lparr>status := ''confirmed''\<rparr>)"
proof -
  have h: "truthy (field [(''bookingId'', JNum (Dec 1 0))] ''bookingId'') \<and> db_ok demo_env
    \<and> select_booking numeric_key (field [(''bookingId'', JNum (Dec 1 0))] ''bookingId'')
         [demo_row] = Some demo_row"
    by (simp add: field_def demo_env_def select_booking_def numeric_key_def demo_row_def)
  from confirm_idempotent
    [of Sms numeric_key demo_env "[(''bookingId'', JNum (Dec 1 0))]" "[demo_row]" demo_row] h
  show ?thesis by blast
qed

section \<open>A failed payment step\<close>

text \<open>
  C6. For every creation request that passes the validation, if the answer to the
  token request holds no access token, or the answer to the order holds no link
  with \<open>rel\<close> equal to \<open>approve\<close> (or either answer never comes), the handler
  answers 500 with its error body, never 200 with a \<open>bookingId\<close> and an
  \<open>approveUrl\<close>. The stored rows are as before, followed by the row the handler
  wrote, whose status is pending; the handler issues no update.
\<close>

theorem payment_failure_keeps_pending:
  assumes "truthy (field body ''hotelName'')" and "truthy (field body ''total'')"
    and "payment_step_fails ev"
  shows "reply (bookings v ev body rows) = Response 500 (error_body ''Failed to create booking'')
         \<and> take (length rows) (db (bookings v ev body rows)) = rows
         \<and> list_all (\<lambda>b. status b = ''pending'')
             (drop (length rows) (db (bookings v ev body rows)))
         \<and> \<not> list_ex (\<lambda>e. case e of DbUpdate st k \<Rightarrow> True | _ \<Rightarrow> False)
               (effects (bookings v ev body rows))
         \<and> (if db_ok ev \<and> \<not> isl (Number (field body ''total''))
            then length (db (bookings v ev body rows)) = Suc (length rows)
            else db (bookings v ev body rows) = rows)"
proof (cases "db_ok ev \<and> \<not> isl (Number (field body ''total''))")
  case True
  then obtain amt where amt: "Number (field body ''total'') = Inr amt"
    by (cases "Number (field body ''total'')") auto
  from True have ok: "db_ok ev" by simp
  let ?pay = "request_payment v ev (field body ''hotelName'') amt (field body ''email'')
                (next_id rows)"
  note b = bookings_valid [OF assms(1,2) ok amt, of v rows]
  from request_payment_fails [OF assms(3)] have "isl (fst ?pay)" .
  with b(3) have rep:
    "reply (bookings v ev body rows) = Response 500 (error_body ''Failed to create booking'')"
    by (cases "fst ?pay") simp_all
  have "list_all (payment_call (next_id rows)) (snd ?pay)"
    using request_payment_calls by blast
  then have "\<not> list_ex (\<lambda>e. case e of DbUpdate st k \<Rightarrow> True | _ \<Rightarrow> False) (snd ?pay)"
    by (auto simp: list_all_iff list_ex_iff payment_call_def split: event.splits)
  with b(1,2) rep True show ?thesis
    by simp
next
  case False
  with bookings_unavailable [OF assms(1,2), of ev v rows] show ?thesis
    by auto
qed

theorem payment_failure_keeps_pending_witness:
  "truthy (field demo_body ''hotelName'') \<and> truthy (field demo_body ''total'')
   \<and> payment_step_fails demo_env
   \<and> db_ok demo_env \<and> \<not> isl (Number (field demo_body ''total''))
   \<and> reply (bookings Sms demo_env demo_body [demo_row])
       = Response 500 (error_body ''Failed to create booking'')
   \<and> take (length [demo_row]) (db (bookings Sms demo_env demo_body [demo_row])) = [demo_row]
   \<and> list_all (\<lambda>b. status b = ''pending'')
       (drop (length [demo_row]) (db (bookings Sms demo_env demo_body [demo_row])))
   \<and> length (db (bookings Sms demo_env demo_body [demo_row])) = Suc (length [demo_row])"
proof -
  have h1: "truthy (field demo_body ''hotelName'')"
    and h2: "truthy (field demo_body ''total'')"
    by (simp_all add: demo_body_def field_def)
  have h3: "payment_step_fails demo_env"
    by (simp add: payment_step_fails_def demo_env_def no_approve_link_def field_def)
  have c: "db_ok demo_env \<and> \<not> isl (Number (field demo_body ''total''))"
    by (simp add: demo_body_def field_def demo_env_def)
  from payment_failure_keeps_pending [OF h1 h2 h3, of Sms "[demo_row]"]
  have "reply (bookings Sms demo_env demo_body [demo_row])
          = Response 500 (error_body ''Failed to create booking'')
        \<and> take (length [demo_row]) (db (bookings Sms demo_env demo_body [demo_row])) = [demo_row]
        \<and> list_all (\<lambda>b. status b = ''pending'')
            (drop (length [demo_row]) (db (bookings Sms demo_env demo_body [demo_row])))
        \<and> length (db (bookings Sms demo_env demo_body [demo_row])) = Suc (length [demo_row])"
    unfolding if_P [OF c] by blast
  with h1 h2 h3 c show ?thesis
    by blast
qed

section \<open>Pages of the hotel list\<close>




section \<open>The confirmation mail carries the stored booking\<close>

text \<open>
  C8. In the two variants that notify by mail, take a request with an email
  contact for a stored booking \<open>b\<close>, and let \<open>fetched ev b\<close> be the record the
  database returns for it, whatever its columns hold (\<open>null\<close>, a number or a
  string). Then the handler reads the booking and makes exactly one delivery
  call, a mail to that contact, and the body of the mail contains, each on its
  labelled line, exactly the strings of the hotel name, the check-in, the
  check-out, the guest count and the total of that record: a column that is
  \<open>null\<close>, as the total of a booking created with \<open>total="abc"\<close> is, reads
  \<open>null\<close>.
\<close>

theorem email_carries_stored_fields:
  assumes "v \<noteq> Sms" and "db_ok ev" and "truthy (field body ''email'')"
    and "select_booking eqid (JStr bookingId) rows = Some b"
  shows "\<exists>subject content.
           effects (notify v eqid ev bookingId body rows) =
             [DbSelect (JStr bookingId), Deliver (Email (field body ''email'') subject content)]
           \<and> list_all (\<lambda>line. sublist line content)
               (mail_lines v (cell_string (fetched ev b ''hotel_name''))
                  (cell_string (fetched ev b ''checkin''))
                  (cell_string (fetched ev b ''checkout''))
                  (cell_string (fetched ev b ''guests''))
                  (cell_string (fetched ev b ''total_amount'')))"
proof (cases v)
  case Sms
  with assms(1) show ?thesis by simp
next
  case Mailer
  with notify_mailer_delivers [OF assms(2-4)] show ?thesis
    by (simp add: notify_def)
next
  case Resend
  with notify_resend_delivers [OF assms(2) assms(4)] show ?thesis
    by (simp add: notify_def)
qed

theorem email_carries_stored_fields_witness:
  "Resend \<noteq> Sms \<and> db_ok demo_env \<and> truthy (field [(''email'', JStr ''guest@example.com'')] ''email'')
   \<and> select_booking numeric_key (JStr ''1'') [abc_row] = Some abc_row
   \<and> cell_string (fetched demo_env abc_row ''hotel_name'') = ''Hilton''
   \<and> cell_string (fetched demo_env abc_row ''checkin'') = ''N/A''
   \<and> cell_string (fetched demo_env abc_row ''checkout'') = ''N/A''
   \<and> cell_string (fetched demo_env abc_row ''guests'') = ''1''
   \<and> cell_string (fetched demo_env abc_row ''total_amount'') = ''null''
   \<and> (\<exists>subject content.
         effects (notify Resend numeric_key demo_env ''1''
                    [(''email'', JStr ''guest@example.com'')] [abc_row]) =
           [DbSelect (JStr ''1''),
            Deliver (Email (field [(''email'', JStr ''guest@example.com'')] ''email'')
                       subject content)]
         \<and> list_all (\<lambda>line. sublist line content)
             (mail_lines Resend ''Hilton'' ''N/A'' ''N/A'' ''1'' ''null''))"
proof -
  have h1: "Resend \<noteq> Sms" by simp
  have h2: "db_ok demo_env" by (simp add: demo_env_def)
  have h3: "truthy (field [(''email'', JStr ''guest@example.com'')] ''email'')"
    by (simp add: field_def)
  have k: "numeric_key (JStr ''1'') 1"
    by code_simp
  have h4: "select_booking numeric_key (JStr ''1'') [abc_row] = Some abc_row"
    using k by (simp add: select_booking_def abc_row_def)
  have c1: "cell_string (fetched demo_env abc_row ''hotel_name'') = ''Hilton''"
    and c2: "cell_string (fetched demo_env abc_row ''checkin'') = ''N/A''"
    and c3: "cell_string (fetched demo_env abc_row ''checkout'') = ''N/A''"
    by (simp_all add: demo_env_def sqlite_fetched_def text_cell_def abc_row_def)
  have "strip_zeros 1 0 = (1, 0)"
    by (simp add: strip_zeros.simps)
  moreover have "dec_digits 1 = ''1''"
    by (simp add: dec_digits.simps digit_char_def)
  ultimately have c4: "cell_string (fetched demo_env abc_row ''guests'') = ''1''"
    by (simp add: demo_env_def sqlite_fetched_def integer_cell_def number_cell_def abc_row_def
          num_to_string_def)
  have c5: "cell_string (fetched demo_env abc_row ''total_amount'') = ''null''"
    by (simp add: demo_env_def sqlite_fetched_def number_cell_def abc_row_def)
  have "\<exists>subject content.
          effects (notify Resend numeric_key demo_env ''1''
                     [(''email'', JStr ''guest@example.com'')] [abc_row]) =
            [DbSelect (JStr ''1''),
             Deliver (Email (field [(''email'', JStr ''guest@example.com'')] ''email'')
                        subject content)]
          \<and> list_all (\<lambda>line. sublist line content)
              (mail_lines Resend (cell_string (fetched demo_env abc_row ''hotel_name''))
                 (cell_string (fetched demo_env abc_row ''checkin''))
                 (cell_string (fetched demo_env abc_row ''checkout''))
                 (cell_string (fetched demo_env abc_row ''guests''))
                 (cell_string (fetched demo_env abc_row ''total_amount'')))"
    by (rule email_carries_stored_fields [OF h1 h2 h3 h4])
  then have "\<exists>subject content.
          effects (notify Resend numeric_key demo_env ''1''
                     [(''email'', JStr ''guest@example.com'')] [abc_row]) =
            [DbSelect (JStr ''1''),
             Deliver (Email (field [(''email'', JStr ''guest@example.com'')] ''email'')
                        subject content)]
          \<and> list_all (\<lambda>line. sublist line content)
              (mail_lines Resend ''Hilton'' ''N/A'' ''N/A'' ''1'' ''null'')"
    unfolding c1 c2 c3 c4 c5 .
  with h1 h2 h3 h4 c1 c2 c3 c4 c5 show ?thesis
    by (intro conjI) assumption+
qed

section \<open>Notification leaves the store alone\<close>

text \<open>
  C9. In every variant, for every booking id, contact and store, and whatever the
  database and the delivery provider answer (a failed delivery included), the
  notification handler returns the store it was given, and none of its effects is
  an insert or an update.
\<close>

theorem notify_frame:
  "db (notify v eqid ev bookingId body rows) = rows
   \<and> \<not> list_ex writes (effects (notify v eqid ev bookingId body rows))"
  by (cases v)
     (simp_all add: notify_def db_notify_sms db_notify_mailer db_notify_resend
        effects_notify_sms effects_notify_mailer effects_notify_resend)

theorem notify_frame_witness:
  "db (notify Sms numeric_key demo_env ''1'' [(''phone'', JStr ''+15550100'')] [demo_row])
     = [demo_row]
   \<and> \<not> list_ex writes
        (effects (notify Sms numeric_key demo_env ''1'' [(''phone'', JStr ''+15550100'')]
           [demo_row]))"
  using notify_frame
    [of Sms numeric_key demo_env "''1''" "[(''phone'', JStr ''+15550100'')]" "[demo_row]"]
  by simp

section \<open>Falsy optional fields take the defaults\<close>

text \<open>
  C10. For every creation request that passes the validation and reaches the
  insert, the request is not rejected and the stored row has: guests 1 when
  \<open>guests\<close> is absent or 0, and \<open>"N/A"\<close> as check-in (check-out) when
  \<open>checkin\<close> (\<open>checkout\<close>) is absent or the empty string. In general a falsy
  value of one of the three fields is replaced by its default and a truthy one is
  stored as given.
\<close>

theorem falsy_fields_defaulted:
  assumes "truthy (field body ''hotelName'')" and "truthy (field body ''total'')"
    and "db_ok ev" and "Number (field body ''total'') = Inr amt"
  shows "\<exists>row. db (bookings v ev body rows) = rows @ [row]
           \<and> code (reply (bookings v ev body rows)) \<noteq> 400
           \<and> (field body ''guests'' = JUndefined \<or> field body ''guests'' = JNum (Dec 0 e)
                \<longrightarrow> guests row = JNum (Dec 1 0))
           \<and> (field body ''checkin'' = JUndefined \<or> field body ''checkin'' = JStr []
                \<longrightarrow> checkin row = JStr ''N/A'')
           \<and> (field body ''checkout'' = JUndefined \<or> field body ''checkout'' = JStr []
                \<longrightarrow> checkout row = JStr ''N/A'')
           \<and> guests row =
               (if truthy (field body ''guests'') then field body ''guests'' else JNum (Dec 1 0))
           \<and> checkin row =
               (if truthy (field body ''checkin'') then field body ''checkin'' else JStr ''N/A'')
           \<and> checkout row =
               (if truthy (field body ''checkout'') then field body ''checkout''
                else JStr ''N/A'')"
proof -
  note b = bookings_valid [OF assms, of v rows]
  have "code (reply (bookings v ev body rows)) \<noteq> 400"
    using b(3) by (simp split: sum.split)
  with b(1) show ?thesis
    by (auto simp: pending_booking_def js_or_def)
qed

theorem falsy_fields_defaulted_witness:
  "truthy (field demo_body ''hotelName'') \<and> truthy (field demo_body ''total'')
   \<and> db_ok paid_env \<and> Number (field demo_body ''total'') = Inr (Dec 9950 (- 2))
   \<and> field demo_body ''guests'' = JNum (Dec 0 0)
   \<and> field demo_body ''checkin'' = JStr []
   \<and> field demo_body ''checkout'' = JUndefined
   \<and> (\<exists>row. db (bookings Sms paid_env demo_body [demo_row]) = [demo_row] @ [row]
         \<and> guests row = JNum (Dec 1 0)
         \<and> checkin row = JStr ''N/A''
         \<and> checkout row = JStr ''N/A'')"
proof -
  have h1: "truthy (field demo_body ''hotelName'')"
    and h2: "truthy (field demo_body ''total'')"
    by (simp_all add: demo_body_def field_def)
  have h3: "db_ok paid_env"
    by (simp add: paid_env_def)
  have h4: "Number (field demo_body ''total'') = Inr (Dec 9950 (- 2))"
    by code_simp
  have f: "field demo_body ''guests'' = JNum (Dec 0 0)"
    "field demo_body ''checkin'' = JStr []"
    "field demo_body ''checkout'' = JUndefined"
    by (simp_all add: demo_body_def field_def)
  from falsy_fields_defaulted [OF h1 h2 h3 h4, of Sms "[demo_row]" 0]
  obtain row where "db (bookings Sms paid_env demo_body [demo_row]) = [demo_row] @ [row]"
    and "guests row = JNum (Dec 1 0)"
    and "checkin row = JStr ''N/A''"
    and "checkout row = JStr ''N/A''"
    unfolding f by auto
  with h1 h2 h3 h4 f show ?thesis
    by blast
qed

end
